theory Spec2Isabelle
  imports Complex_Main
begin

section \<open>Python values and built-ins used by \<^verbatim>\<open>bdc_stac/controller.py\<close>\<close>

text \<open>
  \<^verbatim>\<open>str.split(sep)\<close> for a one-character separator: the result always has at least one
  element, and \<^verbatim>\<open>"".split(",")\<close> is \<^verbatim>\<open>[""]\<close>.
\<close>

fun split_on :: "char \<Rightarrow> string \<Rightarrow> string list" where
  "split_on c [] = [[]]"
| "split_on c (x # xs) =
     (if x = c then [] # split_on c xs
      else (case split_on c xs of [] \<Rightarrow> [[x]] | w # ws \<Rightarrow> (x # w) # ws))"

text \<open>\<^verbatim>\<open>s.startswith(p)\<close>.\<close>

definition startswith :: "string \<Rightarrow> string \<Rightarrow> bool" where
  "startswith s p = (take (length p) s = p)"

text \<open>\<^verbatim>\<open>s.rstrip("/")\<close>: every trailing occurrence of the character is removed.\<close>

definition rstrip :: "char \<Rightarrow> string \<Rightarrow> string" where
  "rstrip c s = rev (dropWhile (\<lambda>x. x = c) (rev s))"

text \<open>
  JSON-like values held in dictionaries (item metadata, assets, band properties, the
  documents that are produced). A dictionary is an association list in insertion order
  with distinct keys.
\<close>

datatype json =
    JNull
  | JBool bool
  | JNum real
  | JStr string
  | JList "json list"
  | JObj "(string \<times> json) list"

type_synonym dict = "(string \<times> json) list"

text \<open>Python truthiness of a value (\<^verbatim>\<open>if v:\<close>).\<close>

fun truthy :: "json \<Rightarrow> bool" where
  "truthy JNull = False"
| "truthy (JBool b) = b"
| "truthy (JNum x) = (x \<noteq> 0)"
| "truthy (JStr s) = (s \<noteq> [])"
| "truthy (JList xs) = (xs \<noteq> [])"
| "truthy (JObj kvs) = (kvs \<noteq> [])"

text \<open>\<^verbatim>\<open>d.get(k)\<close>, \<^verbatim>\<open>d[k] = v\<close>, \<^verbatim>\<open>d.update(e)\<close> and \<^verbatim>\<open>d.pop(k, None)\<close>.\<close>

definition dict_get :: "string \<Rightarrow> dict \<Rightarrow> json option" where
  "dict_get k d = map_of d k"

definition dict_set :: "string \<Rightarrow> json \<Rightarrow> dict \<Rightarrow> dict" where
  "dict_set k v d =
     (if k \<in> set (map fst d) then map (\<lambda>kv. if fst kv = k then (k, v) else kv) d
      else d @ [(k, v)])"

definition dict_update :: "dict \<Rightarrow> dict \<Rightarrow> dict" where
  "dict_update d e = fold (\<lambda>kv acc. dict_set (fst kv) (snd kv) acc) e d"

definition dict_pop :: "string \<Rightarrow> dict \<Rightarrow> dict" where
  "dict_pop k d = filter (\<lambda>kv. fst kv \<noteq> k) d"

text \<open>
  Python floats as far as \<^verbatim>\<open>==\<close> sees them: finite values compare by their numeric value,
  and NaN is equal to nothing, itself included.
\<close>

datatype pyfloat = Finite real | PosInf | NegInf | NaN

definition feq :: "pyfloat \<Rightarrow> pyfloat \<Rightarrow> bool" where
  "feq a b = (a \<noteq> NaN \<and> b \<noteq> NaN \<and> a = b)"

text \<open>The exceptions and aborts the modelled functions can leave with.\<close>

datatype error =
    AbortInvalidParameter
      \<comment> \<open>\<^verbatim>\<open>abort(400, "Invalid parameter. Use collection_id or collections.")\<close>\<close>
  | AbortInvalidBBox
      \<comment> \<open>\<^verbatim>\<open>abort(400, f"{bbox} is not a valid bbox.")\<close>\<close>
  | KeyError string
  | ValueError
  | IndexError
  | TypeError
  | AttributeError
  | ShapeError
      \<comment> \<open>\<^verbatim>\<open>to_shape(None)\<close>: the exception raised inside the geometry library\<close>

text \<open>The HTTP status of an abort; an uncaught exception has none.\<close>

fun abort_status :: "error \<Rightarrow> nat option" where
  "abort_status AbortInvalidParameter = Some 400"
| "abort_status AbortInvalidBBox = Some 400"
| "abort_status _ = None"

section \<open>The catalog store\<close>

type_synonym geometry = string

record collection =
  c_id :: int
  c_identifier :: string
  c_name :: string
  c_version :: string
  c_title :: string
  c_is_public :: bool
  c_is_available :: bool
  c_category :: string
  c_collection_type :: string

record item =
  i_id :: int
  i_name :: string
  i_collection_id :: int
  i_start_date :: int
  i_end_date :: int
  i_created :: int
  i_updated :: int
  i_is_available :: bool
  i_metadata :: "dict option"
  i_cloud_cover :: "real option"
  i_tile_id :: "int option"
  i_assets :: "(string \<times> dict) list option"
  i_footprint :: "geometry option"
  i_bbox :: "geometry option"

record tile =
  t_id :: int
  t_name :: string

record band =
  b_collection_id :: int
  b_collection_name :: string  \<comment> \<open>\<^verbatim>\<open>band.collection.name\<close>\<close>
  b_name :: string
  b_common_name :: "string option"
  b_description :: "string option"
  b_min_value :: "real option"
  b_max_value :: "real option"
  b_nodata :: "real option"
  b_scale_mult :: "real option"
  b_scale_add :: "real option"
  b_data_type :: "string option"
  b_properties :: dict
  b_eo_resolutions :: "real list option"

record processor =
  p_item_id :: int
  p_name :: string
  p_facility :: string
  p_level :: real
  p_version :: string

record db =
  db_collections :: "collection list"
  db_items :: "item list"
  db_tiles :: "tile list"
  db_bands :: "band list"
  db_processors :: "processor list"

section \<open>Query conditions\<close>

text \<open>
  The SQLAlchemy expressions the controller builds, as syntax. Conditions on the
  collection table alone are kept apart because the collection listings use them without
  an item in scope.
\<close>

datatype ccond =
    CollectionIsPublic             \<comment> \<open>\<^verbatim>\<open>Collection.is_public.is_(True)\<close>\<close>
  | CollectionIsAvailable          \<comment> \<open>\<^verbatim>\<open>Collection.is_available.is_(True)\<close>\<close>
  | CollectionIdentifierIn "string list"   \<comment> \<open>\<^verbatim>\<open>Collection.identifier.in_(...)\<close>\<close>
  | CollectionIdIn "int list"      \<comment> \<open>\<^verbatim>\<open>Collection.id.in_(...)\<close>\<close>
  | CollectionNameVersionEq string
      \<comment> \<open>\<^verbatim>\<open>func.concat(Collection.name, "-", Collection.version) == ...\<close>\<close>
  | FalseC                         \<comment> \<open>the Python literal \<^verbatim>\<open>False\<close>\<close>
  | COr "ccond list"               \<comment> \<open>\<^verbatim>\<open>or_(...)\<close>\<close>

datatype geom_field = Footprint | BBoxColumn

datatype column = TileName | ItemCloudCover | ItemMetadataText string

datatype cond =
    OnCollection ccond
  | JoinCollectionItem             \<comment> \<open>\<^verbatim>\<open>Collection.id == Item.collection_id\<close>\<close>
  | ItemIsAvailable                \<comment> \<open>\<^verbatim>\<open>Item.is_available.is_(True)\<close>\<close>
  | ItemNameIn "string list"       \<comment> \<open>\<^verbatim>\<open>Item.name.in_(ids)\<close>\<close>
  | ItemNameLike string            \<comment> \<open>\<^verbatim>\<open>Item.name.like(item_id)\<close>\<close>
  | PropFilter column string json
      \<comment> \<open>\<^verbatim>\<open>getattr(column, method)(value)\<close> of \<^verbatim>\<open>create_query_filter\<close>\<close>
  | STIntersectsGeoJSON json geom_field
      \<comment> \<open>\<^verbatim>\<open>ST_Intersects(ST_GeomFromGeoJSON(str(intersects)), geom_field)\<close>\<close>
  | STIntersectsEnvelope pyfloat pyfloat pyfloat pyfloat int geom_field
      \<comment> \<open>\<^verbatim>\<open>ST_Intersects(ST_MakeEnvelope(b0, b1, b2, b3, 4326), geom_field)\<close>\<close>
  | StartLe string | StartLt string | StartGe string
  | EndLe string | EndGe string | EndGt string
  | Or "cond list"
  | And "cond list"

text \<open>
  What the store does with a condition on a row. The operators the database implements
  (casting a string to a timestamp, \<^verbatim>\<open>LIKE\<close>, the spatial predicates, the comparison
  methods of the property filters) are parameters.
\<close>

record sql =
  sql_timestamp :: "string \<Rightarrow> int"
  sql_like :: "string \<Rightarrow> string \<Rightarrow> bool"
  sql_intersects_geojson :: "json \<Rightarrow> geometry option \<Rightarrow> bool"
  sql_intersects_envelope ::
    "pyfloat \<Rightarrow> pyfloat \<Rightarrow> pyfloat \<Rightarrow> pyfloat \<Rightarrow> int \<Rightarrow> geometry option \<Rightarrow> bool"
  sql_method :: "string \<Rightarrow> json option \<Rightarrow> json \<Rightarrow> bool"

record row =
  r_collection :: collection
  r_item :: item
  r_tile :: "tile option"

fun holds_c :: "collection \<Rightarrow> ccond \<Rightarrow> bool" where
  "holds_c c CollectionIsPublic = c_is_public c"
| "holds_c c CollectionIsAvailable = c_is_available c"
| "holds_c c (CollectionIdentifierIn xs) = (c_identifier c \<in> set xs)"
| "holds_c c (CollectionIdIn xs) = (c_id c \<in> set xs)"
| "holds_c c (CollectionNameVersionEq s) = (c_name c @ ''-'' @ c_version c = s)"
| "holds_c c FalseC = False"
| "holds_c c (COr cs) = list_ex (holds_c c) cs"

definition geom_of :: "geom_field \<Rightarrow> item \<Rightarrow> geometry option" where
  "geom_of g i = (case g of Footprint \<Rightarrow> i_footprint i | BBoxColumn \<Rightarrow> i_bbox i)"

definition column_value :: "column \<Rightarrow> row \<Rightarrow> json option" where
  "column_value col r =
     (case col of
        TileName \<Rightarrow> map_option (\<lambda>t. JStr (t_name t)) (r_tile r)
      | ItemCloudCover \<Rightarrow> map_option JNum (i_cloud_cover (r_item r))
      | ItemMetadataText k \<Rightarrow>
          (case i_metadata (r_item r) of None \<Rightarrow> None | Some m \<Rightarrow> dict_get k m))"

fun holds :: "sql \<Rightarrow> row \<Rightarrow> cond \<Rightarrow> bool" where
  "holds S r (OnCollection c) = holds_c (r_collection r) c"
| "holds S r JoinCollectionItem = (c_id (r_collection r) = i_collection_id (r_item r))"
| "holds S r ItemIsAvailable = i_is_available (r_item r)"
| "holds S r (ItemNameIn xs) = (i_name (r_item r) \<in> set xs)"
| "holds S r (ItemNameLike p) = sql_like S (i_name (r_item r)) p"
| "holds S r (PropFilter col m v) = sql_method S m (column_value col r) v"
| "holds S r (STIntersectsGeoJSON g f) = sql_intersects_geojson S g (geom_of f (r_item r))"
| "holds S r (STIntersectsEnvelope a b c d srid f) =
     sql_intersects_envelope S a b c d srid (geom_of f (r_item r))"
| "holds S r (StartLe t) = (i_start_date (r_item r) \<le> sql_timestamp S t)"
| "holds S r (StartLt t) = (i_start_date (r_item r) < sql_timestamp S t)"
| "holds S r (StartGe t) = (i_start_date (r_item r) \<ge> sql_timestamp S t)"
| "holds S r (EndLe t) = (i_end_date (r_item r) \<le> sql_timestamp S t)"
| "holds S r (EndGe t) = (i_end_date (r_item r) \<ge> sql_timestamp S t)"
| "holds S r (EndGt t) = (i_end_date (r_item r) > sql_timestamp S t)"
| "holds S r (Or cs) = list_ex (holds S r) cs"
| "holds S r (And cs) = list_all (holds S r) cs"

section \<open>Access policy: \<^verbatim>\<open>_add_roles_constraint\<close>\<close>

definition add_roles_constraint :: "string list \<Rightarrow> ccond" where
  "add_roles_constraint roles =
     (let where_list =
            (if ''*'' \<notin> set roles
             then [if length roles > 0 then CollectionIdentifierIn roles else FalseC]
             else [])
      in COr (CollectionIsPublic # where_list))"

text \<open>
  \<^verbatim>\<open>get_catalog\<close>: identifier, computed name and title of every collection that passes
  the availability and role conditions.
\<close>

definition get_catalog :: "db \<Rightarrow> string list option \<Rightarrow> (int \<times> string \<times> string) list" where
  "get_catalog D roles =
     (let roles = (case roles of None \<Rightarrow> [] | Some rs \<Rightarrow> rs);
          where_list = [CollectionIsAvailable, add_roles_constraint roles]
      in map (\<lambda>c. (c_id c, c_name c @ ''-'' @ c_version c, c_title c))
           (filter (\<lambda>c. list_all (holds_c c) where_list) (db_collections D)))"

text \<open>
  \<^verbatim>\<open>get_collections\<close>, up to \<^verbatim>\<open>result = q.all()\<close>: the conditions of the listing and the
  collections it fetches (the outer joins add columns and drop no row).
\<close>

definition get_collections_where :: "string option \<Rightarrow> string list option \<Rightarrow> ccond list" where
  "get_collections_where collection_id roles =
     (let roles = (case roles of None \<Rightarrow> [] | Some rs \<Rightarrow> rs);
          where_list = [CollectionIsAvailable, add_roles_constraint roles]
      in (case collection_id of
            None \<Rightarrow> where_list
          | Some cid \<Rightarrow>
              if cid \<noteq> [] then where_list @ [CollectionNameVersionEq cid] else where_list))"

definition get_collections_result ::
    "db \<Rightarrow> string option \<Rightarrow> string list option \<Rightarrow> collection list" where
  "get_collections_result D collection_id roles =
     filter (\<lambda>c. list_all (holds_c c) (get_collections_where collection_id roles))
       (db_collections D)"

section \<open>Configuration and the environment\<close>

text \<open>
  The configuration values the controller imports. \<^verbatim>\<open>get_stac_extensions\<close> is imported
  from the configuration module; it maps extension names to the extension URIs of the
  registry and is taken as a parameter.
\<close>

record config =
  BDC_STAC_API_VERSION :: string
  BDC_STAC_BASE_URL :: string
  BDC_STAC_FILE_ROOT :: string
  BDC_STAC_MAX_LIMIT :: int
  BDC_STAC_USE_FOOTPRINT :: bool
  get_stac_extensions :: "string list \<Rightarrow> string list"

text \<open>
  Library functions the controller calls: \<^verbatim>\<open>float\<close> on a string (\<open>None\<close> is
  \<^verbatim>\<open>ValueError\<close>) and on a database number, \<^verbatim>\<open>urljoin\<close> for a non-empty base,
  \<^verbatim>\<open>strftime(DATETIME_RFC339)\<close>, and the conversions of a stored geometry.
\<close>

record env =
  float_of_string :: "string \<Rightarrow> pyfloat option"
  float_of_number :: "real \<Rightarrow> real"
  urljoin_nonempty :: "string \<Rightarrow> string \<Rightarrow> string"
  strftime :: "int \<Rightarrow> string"
  shape_mapping :: "geometry \<Rightarrow> json"
  shape_bounds :: "geometry \<Rightarrow> json"

text \<open>\<^verbatim>\<open>urllib.parse.urljoin\<close>: an empty base returns the URL as it is.\<close>

definition urljoin :: "env \<Rightarrow> string \<Rightarrow> string \<Rightarrow> string" where
  "urljoin E base url = (if base = [] then url else urljoin_nonempty E base url)"

section \<open>Filter compilation: \<^verbatim>\<open>get_collection_items\<close>\<close>

datatype str_or_list = PStr string | PList "string list"

datatype bbox_elem = BStr string | BNum pyfloat

datatype bbox_param = BBoxStr string | BBoxList "bbox_elem list"

type_synonym property_query = "(string \<times> (string \<times> json) list) list"

record params =
  collection_id :: "string option"
  roles :: "string list option"
  item_id :: "string option"
  bbox :: "bbox_param option"
  datetime :: "string option"
  ids :: "str_or_list option"
  collections :: "str_or_list option"
  intersects :: "json option"
  page :: int
  limit :: int
  query :: "property_query option"
  exclude :: "string list"  \<comment> \<open>\<^verbatim>\<open>kwargs.get("exclude", [])\<close>\<close>

text \<open>Truthiness of the optional string and string-or-list parameters.\<close>

definition truthy_str :: "string option \<Rightarrow> bool" where
  "truthy_str s = (case s of None \<Rightarrow> False | Some x \<Rightarrow> x \<noteq> [])"

definition truthy_sl :: "str_or_list option \<Rightarrow> bool" where
  "truthy_sl s = (case s of None \<Rightarrow> False | Some (PStr x) \<Rightarrow> x \<noteq> [] | Some (PList xs) \<Rightarrow> xs \<noteq> [])"

text \<open>\<^verbatim>\<open>x.split(",") if isinstance(x, str) else x\<close>.\<close>

definition as_list :: "str_or_list \<Rightarrow> string list" where
  "as_list x = (case x of PStr s \<Rightarrow> split_on CHR '','' s | PList xs \<Rightarrow> xs)"

subsection \<open>\<^verbatim>\<open>create_query_filter\<close>\<close>

definition op_mapping :: "(string \<times> string) list" where
  "op_mapping =
     [(''eq'', ''__eq__''), (''neq'', ''__ne__''), (''lt'', ''__lt__''), (''lte'', ''__le__''),
      (''gt'', ''__gt__''), (''gte'', ''__ge__''), (''startsWith'', ''startswith''),
      (''endsWith'', ''endswith''), (''contains'', ''contains''), (''in'', ''in_'')]"

definition bdc_properties :: "(string \<times> column) list" where
  "bdc_properties =
     [(''bdc:tile'', TileName), (''bdc:tiles'', TileName), (''eo:cloud_cover'', ItemCloudCover)]"

fun column_filters :: "string \<Rightarrow> (string \<times> json) list \<Rightarrow> error + cond list" where
  "column_filters col [] = Inr []"
| "column_filters col ((oper, v) # rest) =
     (case map_of op_mapping oper of
        None \<Rightarrow> Inl (KeyError oper)
      | Some m \<Rightarrow>
          (let f = PropFilter (case map_of bdc_properties col of
                                 Some c \<Rightarrow> c
                               | None \<Rightarrow> ItemMetadataText col) m v
           in case column_filters col rest of
                Inl e \<Rightarrow> Inl e
              | Inr fs \<Rightarrow> Inr (f # fs)))"

fun create_query_filter :: "property_query \<Rightarrow> error + cond list" where
  "create_query_filter [] = Inr []"
| "create_query_filter ((col, fs) # rest) =
     (case column_filters col fs of
        Inl e \<Rightarrow> Inl e
      | Inr a \<Rightarrow> (case create_query_filter rest of Inl e \<Rightarrow> Inl e | Inr b \<Rightarrow> Inr (a @ b)))"

text \<open>\<^verbatim>\<open>if query: where += create_query_filter(query)\<close>.\<close>

definition query_filter :: "property_query option \<Rightarrow> error + cond list" where
  "query_filter q =
     (case q of None \<Rightarrow> Inr [] | Some qs \<Rightarrow> if qs \<noteq> [] then create_query_filter qs else Inr [])"

subsection \<open>The collection filter (lines 150 to 157)\<close>

text \<open>
  \<^verbatim>\<open>db.session.query(Collection.id).filter(Collection.identifier.in_(collections)).all()\<close>:
  the ids of the collections, available or not, whose identifier is listed.
\<close>

definition lookup_collection_ids :: "db \<Rightarrow> string list \<Rightarrow> int list" where
  "lookup_collection_ids D names =
     map c_id (filter (\<lambda>c. c_identifier c \<in> set names) (db_collections D))"

definition collections_filter ::
    "db \<Rightarrow> string option \<Rightarrow> str_or_list option \<Rightarrow> cond list" where
  "collections_filter D cid colls =
     (let colls' = (case cid of
                      None \<Rightarrow> colls
                    | Some c \<Rightarrow> if c \<noteq> [] then Some (PList [c]) else colls)
      in case colls' of
           None \<Rightarrow> []
         | Some cs \<Rightarrow>
             if truthy_sl (Some cs)
             then [OnCollection (CollectionIdIn (lookup_collection_ids D (as_list cs)))]
             else [])"

subsection \<open>The spatial filter (lines 166 to 186)\<close>

definition geom_field :: "config \<Rightarrow> geom_field" where
  "geom_field C = (if BDC_STAC_USE_FOOTPRINT C then Footprint else BBoxColumn)"

definition to_float :: "env \<Rightarrow> bbox_elem \<Rightarrow> pyfloat option" where
  "to_float E x = (case x of BStr s \<Rightarrow> float_of_string E s | BNum f \<Rightarrow> Some f)"

text \<open>\<^verbatim>\<open>[float(x) for x in bbox]\<close>: the first value that does not parse raises.\<close>

fun floats_of :: "env \<Rightarrow> bbox_elem list \<Rightarrow> error + pyfloat list" where
  "floats_of E [] = Inr []"
| "floats_of E (x # xs) =
     (case to_float E x of
        None \<Rightarrow> Inl ValueError
      | Some f \<Rightarrow> (case floats_of E xs of Inl e \<Rightarrow> Inl e | Inr fs \<Rightarrow> Inr (f # fs)))"

text \<open>\<^verbatim>\<open>xs[n]\<close> for a non-negative index.\<close>

definition index :: "'a list \<Rightarrow> nat \<Rightarrow> error + 'a" where
  "index xs n = (if n < length xs then Inr (xs ! n) else Inl IndexError)"

text \<open>
  \<^verbatim>\<open>bbox[0] == bbox[2] or bbox[1] == bbox[3]\<close>, evaluated left to right with the
  short-circuit of \<^verbatim>\<open>or\<close>.
\<close>

definition bbox_degenerate :: "pyfloat list \<Rightarrow> error + bool" where
  "bbox_degenerate b =
     (case index b 0 of
        Inl e \<Rightarrow> Inl e
      | Inr b0 \<Rightarrow>
          (case index b 2 of
             Inl e \<Rightarrow> Inl e
           | Inr b2 \<Rightarrow>
               if feq b0 b2 then Inr True
               else (case index b 1 of
                       Inl e \<Rightarrow> Inl e
                     | Inr b1 \<Rightarrow>
                         (case index b 3 of
                            Inl e \<Rightarrow> Inl e
                          | Inr b3 \<Rightarrow> Inr (feq b1 b3)))))"

text \<open>\<^verbatim>\<open>bbox.split(",")\<close> when the box is given as a string.\<close>

definition bbox_elems :: "bbox_param \<Rightarrow> bbox_elem list" where
  "bbox_elems b = (case b of BBoxStr s \<Rightarrow> map BStr (split_on CHR '','' s) | BBoxList xs \<Rightarrow> xs)"

definition spatial_filter ::
    "env \<Rightarrow> config \<Rightarrow> json option \<Rightarrow> bbox_param option \<Rightarrow> error + cond list" where
  "spatial_filter E C isect bb =
     (case isect of
        Some g \<Rightarrow> Inr [STIntersectsGeoJSON g (geom_field C)]
      | None \<Rightarrow>
          (case bb of
             None \<Rightarrow> Inr []
           | Some b \<Rightarrow>
               (case floats_of E (bbox_elems b) of
                  Inl e \<Rightarrow> Inl AbortInvalidBBox
                | Inr fs \<Rightarrow>
                    (case bbox_degenerate fs of
                       Inl e \<Rightarrow> Inl e
                     | Inr deg \<Rightarrow>
                         if deg then Inl AbortInvalidBBox
                         else Inr [STIntersectsEnvelope (fs ! 0) (fs ! 1) (fs ! 2) (fs ! 3)
                                     4326 (geom_field C)]))))"

subsection \<open>The temporal filter (lines 188 to 207)\<close>

definition matches_open :: "string list" where
  "matches_open = [''..'', []]"

definition date_filter :: "string \<Rightarrow> error + cond list" where
  "date_filter dt =
     (if CHR ''/'' \<in> set dt then
        (case split_on CHR ''/'' dt of
           [time_start, time_end] \<Rightarrow>
             if time_start \<in> set matches_open
             then Inr [Or [StartLe time_end, EndLe time_end]]
             else if time_end \<in> set matches_open
             then Inr [Or [StartGe time_start, EndGe time_start]]
             else Inr [Or [And [StartGe time_start, StartLe time_end],
                           And [EndGe time_start, EndLe time_end],
                           And [StartLt time_start, EndGt time_end]]]
         | _ \<Rightarrow> Inl ValueError)
      else Inr [And [StartLe dt, EndGe dt]])"

text \<open>\<^verbatim>\<open>if datetime is not None: ...\<close>.\<close>

definition datetime_filter :: "string option \<Rightarrow> error + cond list" where
  "datetime_filter d = (case d of None \<Rightarrow> Inr [] | Some dt \<Rightarrow> date_filter dt)"

subsection \<open>The compiled query\<close>

record compiled_query =
  q_columns :: "string list"
  q_where :: "cond list"
  q_page :: int
  q_per_page :: int
  q_max_per_page :: int

definition item_columns :: "string list \<Rightarrow> string list" where
  "item_columns excl =
     [''collection'', ''collection_type'', ''category'', ''item_meta'', ''item'', ''id'',
      ''collection_id'', ''start'', ''end'', ''created'', ''updated'', ''cloud_cover'',
      ''footprint'', ''bbox'', ''tile'']
     @ (if ''assets'' \<notin> set excl then [''assets''] else [])"

definition base_where :: "string list \<Rightarrow> cond list" where
  "base_where rs =
     [JoinCollectionItem, OnCollection CollectionIsAvailable, ItemIsAvailable,
      OnCollection (add_roles_constraint rs)]"

text \<open>
  The conditions added when no explicit id list is given, in the order of the source; the
  first failing step decides the error.
\<close>

definition other_filters :: "env \<Rightarrow> config \<Rightarrow> db \<Rightarrow> params \<Rightarrow> error + cond list" where
  "other_filters E C D p =
     (if truthy_str (collection_id p) \<and> truthy_sl (collections p) then Inl AbortInvalidParameter
      else
        (let cs = collections_filter D (collection_id p) (collections p);
             it = (case item_id p of None \<Rightarrow> [] | Some pat \<Rightarrow> [ItemNameLike pat])
         in case query_filter (query p) of
              Inl e \<Rightarrow> Inl e
            | Inr qf \<Rightarrow>
                (case spatial_filter E C (intersects p) (bbox p) of
                   Inl e \<Rightarrow> Inl e
                 | Inr sp \<Rightarrow>
                     (case datetime_filter (datetime p) of
                        Inl e \<Rightarrow> Inl e
                      | Inr df \<Rightarrow> Inr (cs @ it @ qf @ sp @ df)))))"

definition get_collection_items ::
    "env \<Rightarrow> config \<Rightarrow> db \<Rightarrow> params \<Rightarrow> error + compiled_query" where
  "get_collection_items E C D p =
     (let columns = item_columns (exclude p);
          rs = (case roles p of None \<Rightarrow> [] | Some r \<Rightarrow> r);
          where_list = base_where rs;
          compiled = (\<lambda>w. \<lparr>q_columns = columns, q_where = w, q_page = page p,
                            q_per_page = limit p, q_max_per_page = BDC_STAC_MAX_LIMIT C\<rparr>)
      in case ids p of
           Some i \<Rightarrow> Inr (compiled (where_list @ [ItemNameIn (as_list i)]))
         | None \<Rightarrow>
             (case other_filters E C D p of
                Inl e \<Rightarrow> Inl e
              | Inr fs \<Rightarrow> Inr (compiled (where_list @ fs))))"

text \<open>
  The rows the store selects for a list of conditions (\<^verbatim>\<open>filter(*where)\<close> over the
  collection and item tables with the tile outer-joined), before ordering and pagination.
\<close>

definition tile_of :: "db \<Rightarrow> item \<Rightarrow> tile option" where
  "tile_of D i =
     (case i_tile_id i of
        None \<Rightarrow> None
      | Some tid \<Rightarrow> find (\<lambda>t. t_id t = tid) (db_tiles D))"

definition matching_rows :: "sql \<Rightarrow> db \<Rightarrow> cond list \<Rightarrow> row list" where
  "matching_rows S D w =
     filter (\<lambda>r. list_all (holds S r) w)
       (concat (map (\<lambda>i. map (\<lambda>c. \<lparr>r_collection = c, r_item = i, r_tile = tile_of D i\<rparr>)
                              (db_collections D))
                    (db_items D)))"

section \<open>Electro-optical band metadata: \<^verbatim>\<open>get_collection_eo\<close>\<close>

definition jstr_opt :: "string option \<Rightarrow> json" where
  "jstr_opt s = (case s of None \<Rightarrow> JNull | Some x \<Rightarrow> JStr x)"

text \<open>\<^verbatim>\<open>float(v) if v is not None else None\<close>.\<close>

definition jfloat_opt :: "env \<Rightarrow> real option \<Rightarrow> json" where
  "jfloat_opt E v = (case v of None \<Rightarrow> JNull | Some x \<Rightarrow> JNum (float_of_number E x))"

definition band_meta :: "env \<Rightarrow> band \<Rightarrow> dict" where
  "band_meta E b =
     dict_update
       [(''name'', JStr (b_name b)),
        (''common_name'', jstr_opt (b_common_name b)),
        (''description'', jstr_opt (b_description b)),
        (''min'', jfloat_opt E (b_min_value b)),
        (''max'', jfloat_opt E (b_max_value b)),
        (''nodata'', jfloat_opt E (b_nodata b)),
        (''scale'', jfloat_opt E (b_scale_mult b)),
        (''scale_add'', jfloat_opt E (b_scale_add b)),
        (''data_type'', jstr_opt (b_data_type b))]
       (b_properties b)"

record eo =
  eo_gsd :: real
  eo_bands :: "dict list"

definition no_resolution_warning :: "band \<Rightarrow> string" where
  "no_resolution_warning b =
     ''No resolution configured for '' @ b_collection_name b @ '' - Band '' @ b_name b"

text \<open>
  The loop over the bands, with its three variables: the bands collected so far, the
  largest first resolution seen so far, and the warnings logged so far. The warnings
  logged before an exception stay logged.
\<close>

fun eo_loop :: "env \<Rightarrow> band list \<Rightarrow> dict list \<Rightarrow> real \<Rightarrow> string list \<Rightarrow>
    (error + eo) \<times> string list" where
  "eo_loop E [] bands_acc gsd warnings =
     (Inr \<lparr>eo_gsd = gsd, eo_bands = bands_acc\<rparr>, warnings)"
| "eo_loop E (b # bs) bands_acc gsd warnings =
     (case b_eo_resolutions b of
        None \<Rightarrow> eo_loop E bs bands_acc gsd (warnings @ [no_resolution_warning b])
      | Some resolutions \<Rightarrow>
          (case resolutions of
             [] \<Rightarrow> (Inl IndexError, warnings)
           | r0 # _ \<Rightarrow>
               eo_loop E bs (bands_acc @ [band_meta E b]) (if r0 > gsd then r0 else gsd)
                 warnings))"

text \<open>\<^verbatim>\<open>Band.query().filter(Band.collection_id == collection_id)\<close>.\<close>

definition collection_bands :: "db \<Rightarrow> int \<Rightarrow> band list" where
  "collection_bands D cid = filter (\<lambda>b. b_collection_id b = cid) (db_bands D)"

text \<open>
  The body of \<^verbatim>\<open>get_collection_eo\<close>, what runs on a cache miss: the result or the
  exception, and the warnings it logs.
\<close>

definition get_collection_eo_body :: "env \<Rightarrow> db \<Rightarrow> int \<Rightarrow> (error + eo) \<times> string list" where
  "get_collection_eo_body E D cid = eo_loop E (collection_bands D cid) [] 0 []"

text \<open>
  The state of the serving process that the modelled functions read and change: the
  entries of the \<^verbatim>\<open>@lru_cache()\<close> of \<^verbatim>\<open>get_collection_eo\<close>, most recently used first, and
  the warnings written to the application log.
\<close>

record runtime =
  rt_eo_cache :: "(int \<times> eo) list"
  rt_log :: "string list"

text \<open>The default \<^verbatim>\<open>maxsize\<close> of \<^verbatim>\<open>functools.lru_cache\<close>.\<close>

definition lru_maxsize :: nat where
  "lru_maxsize = 128"

text \<open>
  \<^verbatim>\<open>get_collection_eo\<close> as decorated. A hit returns the stored result, logs nothing and
  makes the entry the most recent. A miss runs the body: a result is stored as the most
  recent entry, the least recently used entry leaving a full cache; an exception stores
  nothing.
\<close>

definition get_collection_eo :: "env \<Rightarrow> db \<Rightarrow> int \<Rightarrow> runtime \<Rightarrow> (error + eo) \<times> runtime" where
  "get_collection_eo E D cid s =
     (case map_of (rt_eo_cache s) cid of
        Some r \<Rightarrow>
          (Inr r, s\<lparr>rt_eo_cache := (cid, r) # filter (\<lambda>kv. fst kv \<noteq> cid) (rt_eo_cache s)\<rparr>)
      | None \<Rightarrow>
          (case get_collection_eo_body E D cid of
             (Inl e, warnings) \<Rightarrow> (Inl e, s\<lparr>rt_log := rt_log s @ warnings\<rparr>)
           | (Inr r, warnings) \<Rightarrow>
               (Inr r, \<lparr>rt_eo_cache = take lru_maxsize ((cid, r) # rt_eo_cache s),
                        rt_log = rt_log s @ warnings\<rparr>)))"

text \<open>
  A cache holds, for the store \<open>D\<close>, what the body computes on \<open>D\<close>: the store has not
  changed since the entries were stored.
\<close>

definition cache_valid :: "env \<Rightarrow> db \<Rightarrow> (int \<times> eo) list \<Rightarrow> bool" where
  "cache_valid E D c =
     list_all (\<lambda>kv. fst (get_collection_eo_body E D (fst kv)) = Inr (snd kv)) c"

section \<open>Processing lineage: \<^verbatim>\<open>get_item_processors\<close>\<close>

fun processors_loop ::
    "processor list \<Rightarrow> processor option \<Rightarrow> dict \<Rightarrow> processor option \<times> dict" where
  "processors_loop [] proc_root obj = (proc_root, obj)"
| "processors_loop (proc # rest) proc_root obj =
     processors_loop rest
       (case proc_root of
          None \<Rightarrow> Some proc
        | Some r \<Rightarrow> if p_level proc > p_level r then Some proc else Some r)
       (dict_set (p_facility proc) (JStr (p_version proc)) obj)"

definition get_item_processors :: "db \<Rightarrow> int \<Rightarrow> dict" where
  "get_item_processors D iid =
     (case processors_loop (filter (\<lambda>p. p_item_id p = iid) (db_processors D)) None [] of
        (Some r, obj) \<Rightarrow>
          if obj \<noteq> []
          then [(''processing:lineage'', JStr (p_name r)),
                (''processing:facility'', JStr (p_facility r)),
                (''processing:level'', JNum (p_level r)),
                (''processing:software'', JObj obj)]
          else []
      | (None, obj) \<Rightarrow> [])"

section \<open>Field projection: \<^verbatim>\<open>parse_fields_parameter\<close>\<close>





section \<open>Item documents: \<^verbatim>\<open>make_geojson\<close>\<close>

text \<open>The request context: the header lookup of \<^verbatim>\<open>flask.request\<close>.\<close>

record request =
  header :: "string \<Rightarrow> string option"

definition resolve_base_file_root_url :: "config \<Rightarrow> request \<Rightarrow> string" where
  "resolve_base_file_root_url C R =
     (case header R ''X-Script-Name'' of None \<Rightarrow> BDC_STAC_FILE_ROOT C | Some v \<Rightarrow> v)"

definition resolve_stac_url :: "config \<Rightarrow> request \<Rightarrow> string" where
  "resolve_stac_url C R =
     rstrip CHR ''/'' (case header R ''X-Stac-Url'' of None \<Rightarrow> BDC_STAC_BASE_URL C | Some v \<Rightarrow> v)"

text \<open>
  A result row of the item query, by its column labels. The \<^verbatim>\<open>assets\<close> column is only
  selected when it is not excluded: \<open>None\<close> stands for a row without the column.
\<close>

record item_row =
  row_collection :: string
  row_collection_type :: string
  row_category :: string
  row_item_meta :: "dict option"
  row_item :: string
  row_id :: int
  row_collection_id :: int
  row_start :: int
  row_end :: int
  row_created :: int
  row_updated :: int
  row_cloud_cover :: "real option"
  row_footprint :: "geometry option"
  row_bbox :: "geometry option"
  row_tile :: "string option"
  row_assets :: "(string \<times> dict) list option option"

definition to_item_row :: "string list \<Rightarrow> row \<Rightarrow> item_row" where
  "to_item_row columns r =
     \<lparr>row_collection = c_identifier (r_collection r),
      row_collection_type = c_collection_type (r_collection r),
      row_category = c_category (r_collection r),
      row_item_meta = i_metadata (r_item r),
      row_item = i_name (r_item r),
      row_id = i_id (r_item r),
      row_collection_id = i_collection_id (r_item r),
      row_start = i_start_date (r_item r),
      row_end = i_end_date (r_item r),
      row_created = i_created (r_item r),
      row_updated = i_updated (r_item r),
      row_cloud_cover = i_cloud_cover (r_item r),
      row_footprint = i_footprint (r_item r),
      row_bbox = i_bbox (r_item r),
      row_tile = map_option t_name (r_tile r),
      row_assets = (if ''assets'' \<in> set columns then Some (i_assets (r_item r)) else None)\<rparr>"

text \<open>
  \<^verbatim>\<open>_resolve_item_file_root\<close> returns a function of no argument, which \<^verbatim>\<open>make_geojson\<close>
  calls within the same request; the model returns what that call returns.
\<close>

definition resolve_item_file_root :: "config \<Rightarrow> request \<Rightarrow> item_row \<Rightarrow> string" where
  "resolve_item_file_root C R ctx =
     (case row_item_meta ctx of
        None \<Rightarrow> resolve_base_file_root_url C R
      | Some m \<Rightarrow>
          if list_ex (\<lambda>prop. startswith prop ''storage:'') (map fst m) then []
          else resolve_base_file_root_url C R)"

text \<open>Running a fallible step over a list; the first error ends the loop.\<close>

fun for_each :: "('a \<Rightarrow> error + 'b) \<Rightarrow> 'a list \<Rightarrow> error + 'b list" where
  "for_each f [] = Inr []"
| "for_each f (x # xs) =
     (case f x of
        Inl e \<Rightarrow> Inl e
      | Inr y \<Rightarrow> (case for_each f xs of Inl e \<Rightarrow> Inl e | Inr ys \<Rightarrow> Inr (y # ys)))"

text \<open>
  The inner loop over \<^verbatim>\<open>bands["eo:bands"]\<close>: every band whose name is the asset key
  overwrites the asset's \<^verbatim>\<open>eo:bands\<close>.
\<close>

definition attach_bands :: "dict list \<Rightarrow> string \<Rightarrow> dict \<Rightarrow> dict" where
  "attach_bands bands key v =
     fold (\<lambda>b acc. if dict_get ''name'' b = Some (JStr key)
                   then dict_set ''eo:bands'' (JList [JObj b]) acc else acc) bands v"

definition rewrite_asset ::
    "env \<Rightarrow> string \<Rightarrow> string \<Rightarrow> bool \<Rightarrow> dict list \<Rightarrow> string \<times> dict \<Rightarrow> error + (string \<times> dict)" where
  "rewrite_asset E base assets_kwargs is_eo bands kv =
     (case dict_get ''href'' (snd kv) of
        None \<Rightarrow> Inl (KeyError ''href'')
      | Some (JStr h) \<Rightarrow>
          (let v = dict_set ''href'' (JStr (urljoin E base (h @ assets_kwargs))) (snd kv)
           in Inr (fst kv, if is_eo then attach_bands bands (fst kv) v else v))
      | Some _ \<Rightarrow> Inl TypeError)"

definition item_links :: "string \<Rightarrow> item_row \<Rightarrow> string \<Rightarrow> json" where
  "item_links url i assets_kwargs =
     JList
       [JObj [(''href'', JStr (url @ ''/collections/'' @ row_collection i @ ''/items/''
                               @ row_item i @ assets_kwargs)),
              (''rel'', JStr ''self'')],
        JObj [(''href'', JStr (url @ ''/collections/'' @ row_collection i @ assets_kwargs)),
              (''rel'', JStr ''parent'')],
        JObj [(''href'', JStr (url @ ''/collections/'' @ row_collection i @ assets_kwargs)),
              (''rel'', JStr ''collection'')],
        JObj [(''href'', JStr (url @ ''/'')), (''rel'', JStr ''root'')]]"

definition item_properties :: "env \<Rightarrow> item_row \<Rightarrow> dict \<Rightarrow> dict" where
  "item_properties E i processors =
     (let p0 = [(''datetime'', JStr (strftime E (row_start i))),
                (''start_datetime'', JStr (strftime E (row_start i))),
                (''end_datetime'', JStr (strftime E (row_end i))),
                (''created'', JStr (strftime E (row_created i))),
                (''updated'', JStr (strftime E (row_updated i)))];
          p1 = dict_update p0 (case row_item_meta i of None \<Rightarrow> [] | Some m \<Rightarrow> m);
          p2 = dict_update p1 processors;
          p3 = (case row_tile i of
                  None \<Rightarrow> p2
                | Some t \<Rightarrow> if t \<noteq> [] then dict_set ''bdc:tiles'' (JList [JStr t]) p2 else p2)
      in if row_category i = ''eo''
         then dict_set ''eo:cloud_cover''
                (case row_cloud_cover i of None \<Rightarrow> JNull | Some c \<Rightarrow> JNum c) p3
         else p3)"

text \<open>
  The extension list of a feature when the loop body ends: the extensions of the category,
  then \<^verbatim>\<open>processing\<close> if the item has processors, then \<^verbatim>\<open>storage\<close> if
  \<^verbatim>\<open>properties.get("storage:platform")\<close> is truthy.
\<close>

definition item_extensions :: "config \<Rightarrow> item_row \<Rightarrow> dict \<Rightarrow> dict \<Rightarrow> string list" where
  "item_extensions C i processors properties =
     get_stac_extensions C [row_category i]
     @ (if processors \<noteq> [] then get_stac_extensions C [''processing''] else [])
     @ (if (case dict_get ''storage:platform'' properties of
              None \<Rightarrow> False
            | Some v \<Rightarrow> truthy v)
        then get_stac_extensions C [''storage''] else [])"

text \<open>The keys of a feature that are set before the assets.\<close>

definition feature_base ::
    "env \<Rightarrow> config \<Rightarrow> request \<Rightarrow> item_row \<Rightarrow> string \<Rightarrow> geometry \<Rightarrow> string list \<Rightarrow> dict" where
  "feature_base E C R i assets_kwargs geom extensions =
     [(''type'', JStr ''Feature''),
      (''id'', JStr (row_item i)),
      (''collection'', JStr (row_collection i)),
      (''stac_version'', JStr (BDC_STAC_API_VERSION C)),
      (''stac_extensions'', JList (map JStr extensions)),
      (''geometry'', shape_mapping E geom),
      (''links'', item_links (resolve_stac_url C R) i assets_kwargs),
      (''bbox'', (case row_bbox i of None \<Rightarrow> JList [] | Some b \<Rightarrow> shape_bounds E b))]"

text \<open>
  The body of the loop of \<^verbatim>\<open>make_geojson\<close> for one row, from the read of \<^verbatim>\<open>i.assets\<close> on,
  with the bands of the collection already looked up. The steps that can raise: the read
  of \<^verbatim>\<open>i.assets\<close> on a row without that column, and the \<^verbatim>\<open>href\<close> of each asset.
\<close>

definition feature_with_bands ::
    "env \<Rightarrow> config \<Rightarrow> request \<Rightarrow> db \<Rightarrow> string \<Rightarrow> string list \<Rightarrow> item_row \<Rightarrow> geometry \<Rightarrow>
     dict list \<Rightarrow> error + dict" where
  "feature_with_bands E C R D assets_kwargs excl i geom bands =
     (let processors = get_item_processors D (row_id i);
          base = resolve_item_file_root C R i;
          properties = item_properties E i processors;
          is_eo = (row_category i = ''eo'');
          feature0 = feature_base E C R i assets_kwargs geom
                       (item_extensions C i processors properties)
      in case row_assets i of
           None \<Rightarrow> Inl AttributeError
         | Some assets_opt \<Rightarrow>
             (case (case assets_opt of
                      None \<Rightarrow> Inr feature0
                    | Some assets \<Rightarrow>
                        if assets \<noteq> [] then
                          (case for_each (rewrite_asset E base assets_kwargs is_eo bands)
                                  assets of
                             Inl e \<Rightarrow> Inl e
                           | Inr assets' \<Rightarrow>
                               Inr (feature0 @
                                    [(''assets'',
                                      JObj (map (\<lambda>kv. (fst kv, JObj (snd kv))) assets'))]))
                        else Inr feature0) of
                Inl e \<Rightarrow> Inl e
              | Inr feature1 \<Rightarrow>
                  Inr (fold dict_pop excl (feature1 @ [(''properties'', JObj properties)]))))"

text \<open>
  The body of the loop of \<^verbatim>\<open>make_geojson\<close> for one row. The steps that can raise, in the
  order of the source: the geometry conversion when the row has neither footprint nor
  bounding box, the band lookup of an \<^verbatim>\<open>eo\<close> item, which reads and changes the cache and
  the log, and then those of the rest of the body.
\<close>

definition make_feature ::
    "env \<Rightarrow> config \<Rightarrow> request \<Rightarrow> db \<Rightarrow> string \<Rightarrow> string list \<Rightarrow> item_row \<Rightarrow> runtime \<Rightarrow>
     (error + dict) \<times> runtime" where
  "make_feature E C R D assets_kwargs excl i s =
     (case (case row_footprint i of Some g \<Rightarrow> Some g | None \<Rightarrow> row_bbox i) of
        None \<Rightarrow> (Inl ShapeError, s)
      | Some geom \<Rightarrow>
          (case (if row_category i = ''eo''
                 then (case get_collection_eo E D (row_collection_id i) s of
                         (Inl e, s') \<Rightarrow> (Inl e, s')
                       | (Inr r, s') \<Rightarrow> (Inr (eo_bands r), s'))
                 else (Inr [], s)) of
             (Inl e, s') \<Rightarrow> (Inl e, s')
           | (Inr bands, s') \<Rightarrow>
               (feature_with_bands E C R D assets_kwargs excl i geom bands, s')))"

text \<open>Running a fallible step that changes the state over a list.\<close>

fun for_each_st ::
    "('a \<Rightarrow> 's \<Rightarrow> (error + 'b) \<times> 's) \<Rightarrow> 'a list \<Rightarrow> 's \<Rightarrow> (error + 'b list) \<times> 's" where
  "for_each_st f [] s = (Inr [], s)"
| "for_each_st f (x # xs) s =
     (case f x s of
        (Inl e, s') \<Rightarrow> (Inl e, s')
      | (Inr y, s') \<Rightarrow>
          (case for_each_st f xs s' of
             (Inl e, s'') \<Rightarrow> (Inl e, s'')
           | (Inr ys, s'') \<Rightarrow> (Inr (y # ys), s'')))"

definition make_geojson ::
    "env \<Rightarrow> config \<Rightarrow> request \<Rightarrow> db \<Rightarrow> item_row list \<Rightarrow> string \<Rightarrow> string list option \<Rightarrow>
     runtime \<Rightarrow> (error + dict list) \<times> runtime" where
  "make_geojson E C R D items assets_kwargs excl s =
     for_each_st
       (make_feature E C R D assets_kwargs (case excl of None \<Rightarrow> [] | Some xs \<Rightarrow> xs))
       items s"

section \<open>Observations on a produced feature\<close>

text \<open>The \<^verbatim>\<open>href\<close> of the asset \<open>k\<close> of a feature, and the feature's extension list.\<close>

definition feature_asset_href :: "dict \<Rightarrow> string \<Rightarrow> json option" where
  "feature_asset_href f k =
     (case dict_get ''assets'' f of
        Some (JObj a) \<Rightarrow>
          (case map_of a k of Some (JObj v) \<Rightarrow> dict_get ''href'' v | _ \<Rightarrow> None)
      | _ \<Rightarrow> None)"

definition feature_extensions :: "dict \<Rightarrow> json list" where
  "feature_extensions f =
     (case dict_get ''stac_extensions'' f of Some (JList xs) \<Rightarrow> xs | _ \<Rightarrow> [])"

text \<open>
  The first resolution entries of the bands that have resolution data, in band order.
\<close>

definition first_resolutions :: "band list \<Rightarrow> real list" where
  "first_resolutions bs =
     concat (map (\<lambda>b. case b_eo_resolutions b of Some (r # _) \<Rightarrow> [r] | _ \<Rightarrow> []) bs)"

section \<open>Sample data\<close>

text \<open>
  A small catalog and stand-ins for the library functions, used to run the definitions on
  concrete inputs.
\<close>

definition sample_env :: env where
  "sample_env =
     \<lparr>float_of_string =
        map_of [(''-54.0'', Finite (-54)), (''-12.0'', Finite (-12)),
                (''-50.0'', Finite (-50)), (''-10.0'', Finite (-10)), (''nan'', NaN)],
      float_of_number = (\<lambda>x. x),
      urljoin_nonempty = (\<lambda>base url. base @ url),
      strftime = (\<lambda>t. ''2020-01-01T00:00:00.000000Z''),
      shape_mapping = JStr,
      shape_bounds = (\<lambda>g. JList [])\<rparr>"

definition sample_config :: config where
  "sample_config =
     \<lparr>BDC_STAC_API_VERSION = ''1.0.0'',
      BDC_STAC_BASE_URL = ''http://localhost:5005'',
      BDC_STAC_FILE_ROOT = ''http://localhost:5001'',
      BDC_STAC_MAX_LIMIT = 1000,
      BDC_STAC_USE_FOOTPRINT = False,
      get_stac_extensions =
        (\<lambda>names. concat (map (\<lambda>n. case map_of [(''eo'', ''eo-schema''),
                                                   (''processing'', ''processing-schema''),
                                                   (''storage'', ''storage-schema'')] n of
                                       None \<Rightarrow> [] | Some u \<Rightarrow> [u]) names))\<rparr>"

definition sample_request :: request where
  "sample_request = \<lparr>header = (\<lambda>h. None)\<rparr>"

definition sample_sql :: sql where
  "sample_sql =
     \<lparr>sql_timestamp =
        (\<lambda>s. case map_of [(''2020-01-05T00:00:00Z'', 5), (''2020-01-12T00:00:00Z'', 12),
                           (''2020-01-15T00:00:00Z'', 15), (''2020-01-18T00:00:00Z'', 18),
                           (''2020-01-25T00:00:00Z'', 25)] s of
               None \<Rightarrow> 0 | Some t \<Rightarrow> t),
      sql_like = (\<lambda>name pat. name = pat),
      sql_intersects_geojson = (\<lambda>g f. True),
      sql_intersects_envelope = (\<lambda>a b c d srid f. True),
      sql_method = (\<lambda>m col v. col = Some v)\<rparr>"

definition private_collection :: collection where
  "private_collection =
     \<lparr>c_id = 1, c_identifier = ''S2-1'', c_name = ''S2'', c_version = ''1'',
      c_title = ''Sentinel-2'', c_is_public = False, c_is_available = True,
      c_category = ''eo'', c_collection_type = ''collection''\<rparr>"

definition public_collection :: collection where
  "public_collection =
     \<lparr>c_id = 2, c_identifier = ''LC8-1'', c_name = ''LC8'', c_version = ''1'',
      c_title = ''Landsat-8'', c_is_public = True, c_is_available = True,
      c_category = ''eo'', c_collection_type = ''collection''\<rparr>"

definition sample_item :: item where
  "sample_item =
     \<lparr>i_id = 7, i_name = ''LC8_A'', i_collection_id = 2, i_start_date = 10, i_end_date = 20,
      i_created = 30, i_updated = 30, i_is_available = True,
      i_metadata = Some [(''storage:platform'', JStr ''AWS'')],
      i_cloud_cover = Some 12, i_tile_id = None,
      i_assets = Some [(''B1'', [(''href'', JStr ''s3://bucket/B1.tif'')])],
      i_footprint = None, i_bbox = Some ''POLYGON''\<rparr>"

definition sample_band :: "string \<Rightarrow> real list option \<Rightarrow> band" where
  "sample_band n res =
     \<lparr>b_collection_id = 2, b_collection_name = ''LC8'', b_name = n, b_common_name = None,
      b_description = None, b_min_value = Some 0, b_max_value = Some 10000, b_nodata = None,
      b_scale_mult = None, b_scale_add = None, b_data_type = Some ''int16'',
      b_properties = [], b_eo_resolutions = res\<rparr>"

definition sample_db :: db where
  "sample_db =
     \<lparr>db_collections = [private_collection, public_collection],
      db_items = [sample_item],
      db_tiles = [],
      db_bands = [sample_band ''B1'' (Some [30]), sample_band ''B2'' (Some [10])],
      db_processors = []\<rparr>"

definition no_params :: params where
  "no_params =
     \<lparr>collection_id = None, roles = None, item_id = None, bbox = None, datetime = None,
      ids = None, collections = None, intersects = None, page = 1, limit = 10, query = None,
      exclude = []\<rparr>"

definition negative_band_db :: db where
  "negative_band_db = sample_db\<lparr>db_bands := [sample_band ''B1'' (Some [-5])]\<rparr>"

definition empty_resolution_db :: db where
  "empty_resolution_db = sample_db\<lparr>db_bands := [sample_band ''B1'' (Some [])]\<rparr>"

definition empty_runtime :: runtime where
  "empty_runtime = \<lparr>rt_eo_cache = [], rt_log = []\<rparr>"

definition sample_row :: row where
  "sample_row = \<lparr>r_collection = public_collection, r_item = sample_item, r_tile = None\<rparr>"

definition sample_item_row :: item_row where
  "sample_item_row = to_item_row (item_columns []) sample_row"

definition empty_platform_row :: item_row where
  "empty_platform_row =
     sample_item_row\<lparr>row_item_meta := Some [(''storage:platform'', JStr [])]\<rparr>"

section \<open>Lemmas on the built-ins\<close>


lemma split_on_no_sep: "c \<notin> set s \<Longrightarrow> split_on c s = [s]"
  by (induction s) auto

lemma split_on_append: "c \<notin> set a \<Longrightarrow> split_on c (a @ c # b) = a # split_on c b"
  by (induction a) auto

lemma split_on_two:
  "c \<notin> set a \<Longrightarrow> c \<notin> set b \<Longrightarrow> split_on c (a @ c # b) = [a, b]"
  by (simp add: split_on_append split_on_no_sep)

lemma fold_max_Max: "fold max xs (g::real) = Max (set (g # xs))"
  by (metis Max.set_eq_fold)

section \<open>Access policy\<close>

lemma holds_roles_constraint:
  "holds_c c (add_roles_constraint rs) =
     (c_is_public c \<or> (''*'' \<notin> set rs \<and> c_identifier c \<in> set rs))"
  by (auto simp: add_roles_constraint_def Let_def)

text \<open>
  Claim C2. The claim: a collection is visible iff it is public, or its identifier is in
  the role list, or the role list contains the wildcard \<^verbatim>\<open>*\<close>. The docstring of
  \<^verbatim>\<open>_add_roles_constraint\<close> says the same of the wildcard (free access to all collections).
  The code, run on the role list \<^verbatim>\<open>["*"]\<close> and a catalog with one private and one public
  available collection: the role condition is false on the private collection, and both
  listings return the public collection only.
\<close>

theorem wildcard_role_hides_private_collection:
  "holds_c private_collection (add_roles_constraint [''*'']) = False
   \<and> get_catalog sample_db (Some [''*'']) = [(2, ''LC8-1'', ''Landsat-8'')]
   \<and> get_collections_result sample_db None (Some [''*'']) = [public_collection]"
  by (simp add: add_roles_constraint_def get_catalog_def get_collections_result_def
      get_collections_where_def sample_db_def private_collection_def public_collection_def)

section \<open>Filter compilation\<close>

text \<open>
  Claim C1, as amended. When no explicit item id list is given and both the single
  collection id and the collection list are non-empty, \<^verbatim>\<open>get_collection_items\<close> aborts
  with the status 400, whatever the other parameters are.
\<close>

theorem both_collections_rejected:
  assumes "ids p = None" and "truthy_str (collection_id p)" and "truthy_sl (collections p)"
  shows "get_collection_items E C D p = Inl AbortInvalidParameter
         \<and> abort_status AbortInvalidParameter = Some 400"
  using assms by (simp add: get_collection_items_def other_filters_def)

theorem both_collections_rejected_witness:
  "get_collection_items sample_env sample_config sample_db
     (no_params\<lparr>collection_id := Some ''S2-1'', collections := Some (PList [''LC8-1'']),
                bbox := Some (BBoxStr ''-54.0,-12.0,-50.0,-10.0'')\<rparr>)
   = Inl AbortInvalidParameter"
  using both_collections_rejected
    [of "no_params\<lparr>collection_id := Some ''S2-1'', collections := Some (PList [''LC8-1'']),
                    bbox := Some (BBoxStr ''-54.0,-12.0,-50.0,-10.0'')\<rparr>"
        sample_env sample_config sample_db]
  by (simp add: no_params_def truthy_str_def truthy_sl_def)

text \<open>
  The claim as stated fails: with an explicit id list the call with both collection
  parameters returns a query.
\<close>

theorem both_collections_with_ids_counterexample:
  "get_collection_items sample_env sample_config sample_db
     (no_params\<lparr>collection_id := Some ''S2-1'', collections := Some (PList [''LC8-1'']),
                ids := Some (PList [''LC8_A''])\<rparr>)
   = Inr \<lparr>q_columns = item_columns [],
          q_where = [JoinCollectionItem, OnCollection CollectionIsAvailable, ItemIsAvailable,
                     OnCollection (add_roles_constraint []), ItemNameIn [''LC8_A'']],
          q_page = 1, q_per_page = 10, q_max_per_page = 1000\<rparr>"
  by (simp add: get_collection_items_def no_params_def base_where_def as_list_def
      sample_config_def)

text \<open>
  Claim C4. With an explicit item id list, the compiled conditions are the join, the
  availability of the collection and of the item, the role condition and the membership
  of the item name in the list, and nothing else: the collection, item name pattern,
  bounding box, geometry, datetime and property query parameters do not change the result.
\<close>

theorem explicit_ids_override:
  assumes "ids p = Some i"
  shows "get_collection_items E C D p =
           Inr \<lparr>q_columns = item_columns (exclude p),
                q_where = [JoinCollectionItem, OnCollection CollectionIsAvailable,
                           ItemIsAvailable,
                           OnCollection (add_roles_constraint
                                           (case roles p of None \<Rightarrow> [] | Some r \<Rightarrow> r)),
                           ItemNameIn (as_list i)],
                q_page = page p, q_per_page = limit p,
                q_max_per_page = BDC_STAC_MAX_LIMIT C\<rparr>
         \<and> get_collection_items E C D
             (p\<lparr>collection_id := a, collections := b, item_id := c, bbox := d,
                intersects := e, datetime := f, query := g\<rparr>) = get_collection_items E C D p"
  using assms by (simp add: get_collection_items_def base_where_def)

theorem explicit_ids_override_witness:
  "get_collection_items sample_env sample_config sample_db
     (no_params\<lparr>ids := Some (PStr ''LC8_A,LC8_B''), collections := Some (PList [''nope'']),
                bbox := Some (BBoxStr ''-54.0,-12.0,-54.0,-10.0''),
                datetime := Some ''a/b/c''\<rparr>)
   = Inr \<lparr>q_columns = item_columns [],
          q_where = [JoinCollectionItem, OnCollection CollectionIsAvailable, ItemIsAvailable,
                     OnCollection (add_roles_constraint []), ItemNameIn [''LC8_A'', ''LC8_B'']],
          q_page = 1, q_per_page = 10, q_max_per_page = 1000\<rparr>"
  using explicit_ids_override
    [of "no_params\<lparr>ids := Some (PStr ''LC8_A,LC8_B''), collections := Some (PList [''nope'']),
                    bbox := Some (BBoxStr ''-54.0,-12.0,-54.0,-10.0''),
                    datetime := Some ''a/b/c''\<rparr>"
        "PStr ''LC8_A,LC8_B''" sample_env sample_config sample_db]
  by (simp add: no_params_def as_list_def sample_config_def)

subsection \<open>The bounding box\<close>

lemma bbox_degenerate_four:
  "bbox_degenerate (w # s # e # n # rest) = Inr (feq w e \<or> feq s n)"
  by (simp add: bbox_degenerate_def index_def)

lemma spatial_filter_bbox:
  assumes "floats_of E (bbox_elems b) = Inr (w # s # e # n # rest)"
  shows "spatial_filter E C None (Some b) =
           (if feq w e \<or> feq s n then Inl AbortInvalidBBox
            else Inr [STIntersectsEnvelope w s e n 4326 (geom_field C)])"
  using assms by (simp add: spatial_filter_def bbox_degenerate_four)

lemma datetime_filter_not_bbox_abort: "datetime_filter d \<noteq> Inl AbortInvalidBBox"
  by (auto simp: datetime_filter_def date_filter_def split: option.splits list.splits)

text \<open>
  Claim C5, as amended. A bounding box is given without an intersection geometry and
  without an explicit item id list, its values parse to the numbers west, south, east,
  north, and the collection and property-query parameters, which are handled before it,
  raise nothing. If west equals east or south equals north, the call aborts with the
  status 400 of the invalid bounding box. Otherwise the call does not abort on the box,
  and with a datetime parameter that raises nothing it returns a query whose conditions
  contain the envelope-intersection predicate of the box.
\<close>

theorem bbox_validation:
  assumes "ids p = None" and "intersects p = None" and "bbox p = Some b"
    and "floats_of E (bbox_elems b) = Inr (w # s # e # n # rest)"
    and "\<not> (truthy_str (collection_id p) \<and> truthy_sl (collections p))"
    and "query_filter (query p) = Inr qf"
  shows "(feq w e \<or> feq s n \<longrightarrow>
            get_collection_items E C D p = Inl AbortInvalidBBox
            \<and> abort_status AbortInvalidBBox = Some 400)
       \<and> (\<not> feq w e \<and> \<not> feq s n \<longrightarrow>
            get_collection_items E C D p \<noteq> Inl AbortInvalidBBox
            \<and> (\<forall>df. datetime_filter (datetime p) = Inr df \<longrightarrow>
                 (\<exists>q. get_collection_items E C D p = Inr q
                    \<and> STIntersectsEnvelope w s e n 4326 (geom_field C) \<in> set (q_where q))))"
proof -
  have sp: "spatial_filter E C (intersects p) (bbox p) =
           (if feq w e \<or> feq s n then Inl AbortInvalidBBox
            else Inr [STIntersectsEnvelope w s e n 4326 (geom_field C)])"
    using assms(2,3,4) by (simp add: spatial_filter_bbox)
  show ?thesis
    using assms(1,5,6) sp datetime_filter_not_bbox_abort [of "datetime p"]
    by (auto simp: get_collection_items_def other_filters_def Let_def split: sum.splits)
qed

theorem bbox_validation_witness:
  "get_collection_items sample_env sample_config sample_db
     (no_params\<lparr>bbox := Some (BBoxStr ''-54.0,-12.0,-50.0,-10.0'')\<rparr>)
   = Inr \<lparr>q_columns = item_columns [],
          q_where = [JoinCollectionItem, OnCollection CollectionIsAvailable, ItemIsAvailable,
                     OnCollection (add_roles_constraint []),
                     STIntersectsEnvelope (Finite (-54)) (Finite (-12)) (Finite (-50))
                       (Finite (-10)) 4326 BBoxColumn],
          q_page = 1, q_per_page = 10, q_max_per_page = 1000\<rparr>
   \<and> get_collection_items sample_env sample_config sample_db
     (no_params\<lparr>bbox := Some (BBoxStr ''-54.0,-12.0,-54.0,-10.0'')\<rparr>)
   = Inl AbortInvalidBBox"
  using bbox_validation
    [where p = "no_params\<lparr>bbox := Some (BBoxStr ''-54.0,-12.0,-50.0,-10.0'')\<rparr>"
       and b = "BBoxStr ''-54.0,-12.0,-50.0,-10.0''" and E = sample_env
       and w = "Finite (-54)" and s = "Finite (-12)" and e = "Finite (-50)"
       and n = "Finite (-10)" and rest = "[]" and qf = "[]" and C = sample_config
       and D = sample_db]
    bbox_validation
    [where p = "no_params\<lparr>bbox := Some (BBoxStr ''-54.0,-12.0,-54.0,-10.0'')\<rparr>"
       and b = "BBoxStr ''-54.0,-12.0,-54.0,-10.0''" and E = sample_env
       and w = "Finite (-54)" and s = "Finite (-12)" and e = "Finite (-54)"
       and n = "Finite (-10)" and rest = "[]" and qf = "[]" and C = sample_config
       and D = sample_db]
  by (simp add: get_collection_items_def other_filters_def no_params_def truthy_str_def
      truthy_sl_def collections_filter_def query_filter_def datetime_filter_def
      spatial_filter_def bbox_elems_def sample_env_def to_float_def bbox_degenerate_def
      index_def feq_def base_where_def geom_field_def sample_config_def)

text \<open>
  The claim as stated fails: with an explicit id list a box whose west equals its east is
  not rejected, the call returns a query without a spatial condition. And a box that is
  not degenerate does not keep the call from failing on the two collection parameters.
\<close>

theorem bbox_ignored_with_ids_counterexample:
  "get_collection_items sample_env sample_config sample_db
     (no_params\<lparr>ids := Some (PList [''LC8_A'']),
                bbox := Some (BBoxStr ''-54.0,-12.0,-54.0,-10.0'')\<rparr>)
   = Inr \<lparr>q_columns = item_columns [],
          q_where = [JoinCollectionItem, OnCollection CollectionIsAvailable, ItemIsAvailable,
                     OnCollection (add_roles_constraint []), ItemNameIn [''LC8_A'']],
          q_page = 1, q_per_page = 10, q_max_per_page = 1000\<rparr>
   \<and> floats_of sample_env (bbox_elems (BBoxStr ''-54.0,-12.0,-54.0,-10.0''))
       = Inr [Finite (-54), Finite (-12), Finite (-54), Finite (-10)]
   \<and> feq (Finite (-54)) (Finite (-54))
   \<and> get_collection_items sample_env sample_config sample_db
       (no_params\<lparr>collection_id := Some ''S2-1'', collections := Some (PList [''LC8-1'']),
                  bbox := Some (BBoxStr ''-54.0,-12.0,-50.0,-10.0'')\<rparr>)
     = Inl AbortInvalidParameter"
  by (simp add: get_collection_items_def other_filters_def no_params_def base_where_def
      as_list_def sample_config_def bbox_elems_def sample_env_def to_float_def feq_def
      truthy_str_def truthy_sl_def)

subsection \<open>The temporal range\<close>

lemma date_filter_single:
  "CHR ''/'' \<notin> set t \<Longrightarrow> date_filter t = Inr [And [StartLe t, EndGe t]]"
  by (simp add: date_filter_def)

lemma date_filter_open_start:
  "opn = ''..'' \<or> opn = [] \<Longrightarrow> CHR ''/'' \<notin> set tb \<Longrightarrow>
   date_filter (opn @ CHR ''/'' # tb) = Inr [Or [StartLe tb, EndLe tb]]"
  by (auto simp: date_filter_def split_on_no_sep matches_open_def)

lemma date_filter_open_end:
  "ta \<noteq> ''..'' \<Longrightarrow> ta \<noteq> [] \<Longrightarrow> CHR ''/'' \<notin> set ta \<Longrightarrow> opn = ''..'' \<or> opn = [] \<Longrightarrow>
   date_filter (ta @ CHR ''/'' # opn) = Inr [Or [StartGe ta, EndGe ta]]"
  by (auto simp: date_filter_def split_on_two matches_open_def)

lemma date_filter_closed:
  "ta \<noteq> ''..'' \<Longrightarrow> ta \<noteq> [] \<Longrightarrow> tb \<noteq> ''..'' \<Longrightarrow> tb \<noteq> [] \<Longrightarrow>
   CHR ''/'' \<notin> set ta \<Longrightarrow> CHR ''/'' \<notin> set tb \<Longrightarrow>
   date_filter (ta @ CHR ''/'' # tb) =
     Inr [Or [And [StartGe ta, StartLe tb], And [EndGe ta, EndLe tb],
              And [StartLt ta, EndGt tb]]]"
  by (auto simp: date_filter_def split_on_two matches_open_def)

text \<open>
  Claim C3. The conditions compiled from the datetime parameter, evaluated on a row whose
  item spans from start to end, with the timestamps as the store reads them: a single
  timestamp \<open>t\<close> matches iff start \<open>\<le>\<close> t \<open>\<le>\<close> end; an open start (\<^verbatim>\<open>../T2\<close> or \<^verbatim>\<open>/T2\<close>)
  matches iff start \<open>\<le>\<close> T2 or end \<open>\<le>\<close> T2; an open end (\<^verbatim>\<open>T1/..\<close> or \<^verbatim>\<open>T1/\<close>)
  matches iff start \<open>\<ge>\<close> T1 or end \<open>\<ge>\<close> T1; a closed range \<^verbatim>\<open>T1/T2\<close> matches iff start is
  in [T1, T2], or end is in [T1, T2], or start < T1 and end > T2.
\<close>

theorem temporal_range_resolver:
  "(CHR ''/'' \<notin> set t \<longrightarrow>
      (\<exists>cs. date_filter t = Inr cs \<and>
         (list_all (holds S r) cs \<longleftrightarrow>
            i_start_date (r_item r) \<le> sql_timestamp S t
            \<and> sql_timestamp S t \<le> i_end_date (r_item r))))
   \<and> ((opn = ''..'' \<or> opn = '''') \<and> CHR ''/'' \<notin> set tb \<longrightarrow>
      (\<exists>cs. date_filter (opn @ ''/'' @ tb) = Inr cs \<and>
         (list_all (holds S r) cs \<longleftrightarrow>
            i_start_date (r_item r) \<le> sql_timestamp S tb
            \<or> i_end_date (r_item r) \<le> sql_timestamp S tb)))
   \<and> (ta \<noteq> ''..'' \<and> ta \<noteq> '''' \<and> CHR ''/'' \<notin> set ta \<and> (opn = ''..'' \<or> opn = '''') \<longrightarrow>
      (\<exists>cs. date_filter (ta @ ''/'' @ opn) = Inr cs \<and>
         (list_all (holds S r) cs \<longleftrightarrow>
            i_start_date (r_item r) \<ge> sql_timestamp S ta
            \<or> i_end_date (r_item r) \<ge> sql_timestamp S ta)))
   \<and> (ta \<noteq> ''..'' \<and> ta \<noteq> '''' \<and> tb \<noteq> ''..'' \<and> tb \<noteq> ''''
        \<and> CHR ''/'' \<notin> set ta \<and> CHR ''/'' \<notin> set tb \<longrightarrow>
      (\<exists>cs. date_filter (ta @ ''/'' @ tb) = Inr cs \<and>
         (list_all (holds S r) cs \<longleftrightarrow>
            (sql_timestamp S ta \<le> i_start_date (r_item r)
               \<and> i_start_date (r_item r) \<le> sql_timestamp S tb)
            \<or> (sql_timestamp S ta \<le> i_end_date (r_item r)
               \<and> i_end_date (r_item r) \<le> sql_timestamp S tb)
            \<or> (i_start_date (r_item r) < sql_timestamp S ta
               \<and> i_end_date (r_item r) > sql_timestamp S tb))))"
proof (intro conjI impI)
  assume "CHR ''/'' \<notin> set t"
  then show "\<exists>cs. date_filter t = Inr cs \<and>
         (list_all (holds S r) cs \<longleftrightarrow>
            i_start_date (r_item r) \<le> sql_timestamp S t
            \<and> sql_timestamp S t \<le> i_end_date (r_item r))"
    by (simp add: date_filter_single)
next
  assume "(opn = ''..'' \<or> opn = '''') \<and> CHR ''/'' \<notin> set tb"
  then have "date_filter (opn @ ''/'' @ tb) = Inr [Or [StartLe tb, EndLe tb]]"
    using date_filter_open_start [of opn tb] by simp
  then show "\<exists>cs. date_filter (opn @ ''/'' @ tb) = Inr cs \<and>
         (list_all (holds S r) cs \<longleftrightarrow>
            i_start_date (r_item r) \<le> sql_timestamp S tb
            \<or> i_end_date (r_item r) \<le> sql_timestamp S tb)"
    by simp
next
  assume "ta \<noteq> ''..'' \<and> ta \<noteq> '''' \<and> CHR ''/'' \<notin> set ta \<and> (opn = ''..'' \<or> opn = '''')"
  then have "date_filter (ta @ ''/'' @ opn) = Inr [Or [StartGe ta, EndGe ta]]"
    using date_filter_open_end [of ta opn] by simp
  then show "\<exists>cs. date_filter (ta @ ''/'' @ opn) = Inr cs \<and>
         (list_all (holds S r) cs \<longleftrightarrow>
            i_start_date (r_item r) \<ge> sql_timestamp S ta
            \<or> i_end_date (r_item r) \<ge> sql_timestamp S ta)"
    by simp
next
  assume "ta \<noteq> ''..'' \<and> ta \<noteq> '''' \<and> tb \<noteq> ''..'' \<and> tb \<noteq> ''''
        \<and> CHR ''/'' \<notin> set ta \<and> CHR ''/'' \<notin> set tb"
  then have "date_filter (ta @ ''/'' @ tb) =
     Inr [Or [And [StartGe ta, StartLe tb], And [EndGe ta, EndLe tb],
              And [StartLt ta, EndGt tb]]]"
    using date_filter_closed [of ta tb] by simp
  then show "\<exists>cs. date_filter (ta @ ''/'' @ tb) = Inr cs \<and>
         (list_all (holds S r) cs \<longleftrightarrow>
            (sql_timestamp S ta \<le> i_start_date (r_item r)
               \<and> i_start_date (r_item r) \<le> sql_timestamp S tb)
            \<or> (sql_timestamp S ta \<le> i_end_date (r_item r)
               \<and> i_end_date (r_item r) \<le> sql_timestamp S tb)
            \<or> (i_start_date (r_item r) < sql_timestamp S ta
               \<and> i_end_date (r_item r) > sql_timestamp S tb))"
    by simp
qed

theorem temporal_range_resolver_witness:
  "(\<exists>cs. date_filter ''2020-01-15T00:00:00Z'' = Inr cs \<and> list_all (holds sample_sql sample_row) cs)
   \<and> (\<exists>cs. date_filter ''2020-01-25T00:00:00Z'' = Inr cs
         \<and> \<not> list_all (holds sample_sql sample_row) cs)
   \<and> (\<exists>cs. date_filter ''../2020-01-18T00:00:00Z'' = Inr cs
         \<and> list_all (holds sample_sql sample_row) cs)
   \<and> (\<exists>cs. date_filter ''2020-01-12T00:00:00Z/..'' = Inr cs
         \<and> list_all (holds sample_sql sample_row) cs)
   \<and> (\<exists>cs. date_filter ''2020-01-12T00:00:00Z/2020-01-18T00:00:00Z'' = Inr cs
         \<and> list_all (holds sample_sql sample_row) cs)"
  using temporal_range_resolver
    [where t = "''2020-01-15T00:00:00Z''" and opn = "''..''"
       and tb = "''2020-01-18T00:00:00Z''" and ta = "''2020-01-12T00:00:00Z''"
       and S = sample_sql and r = sample_row]
    temporal_range_resolver
    [where t = "''2020-01-25T00:00:00Z''" and opn = "''..''"
       and tb = "''2020-01-18T00:00:00Z''" and ta = "''2020-01-12T00:00:00Z''"
       and S = sample_sql and r = sample_row]
  by (simp add: sample_sql_def sample_row_def sample_item_def)

subsection \<open>The collection list\<close>

lemma collections_filter_listed:
  assumes "\<not> truthy_str cid" and "truthy_sl (Some cs)"
  shows "collections_filter D cid (Some cs) =
           [OnCollection (CollectionIdIn (lookup_collection_ids D (as_list cs)))]"
    and "collections_filter D cid None = []"
  using assms by (auto simp: collections_filter_def truthy_str_def split: option.splits)

lemma other_filters_collections:
  assumes "\<not> truthy_str (collection_id p)" and "collections p = Some cs"
    and "truthy_sl (Some cs)"
  shows "other_filters E C D p =
           (case other_filters E C D (p\<lparr>collections := None\<rparr>) of
              Inl e \<Rightarrow> Inl e
            | Inr fs \<Rightarrow>
                Inr (OnCollection (CollectionIdIn (lookup_collection_ids D (as_list cs))) # fs))"
  using assms collections_filter_listed [of "collection_id p" cs D]
  by (simp add: other_filters_def Let_def truthy_sl_def split: sum.splits)

lemma matching_rows_collection:
  "r \<in> set (matching_rows S D w) \<Longrightarrow>
     r_collection r \<in> set (db_collections D) \<and> list_all (holds S r) w"
  by (auto simp: matching_rows_def)

lemma lookup_collection_ids_unique:
  assumes "distinct (map c_id (db_collections D))" and "c \<in> set (db_collections D)"
    and "c_id c \<in> set (lookup_collection_ids D names)"
  shows "c_identifier c \<in> set names"
proof -
  from assms(3) obtain c' where c': "c' \<in> set (db_collections D)" "c_identifier c' \<in> set names"
      "c_id c' = c_id c"
    by (auto simp: lookup_collection_ids_def)
  from assms(1) have "inj_on c_id (set (db_collections D))" by (simp add: distinct_map)
  with c'(1,3) assms(2) have "c' = c" by (auto dest: inj_onD)
  with c'(2) show ?thesis by simp
qed

text \<open>
  Claim C9, as amended. The collection list is given and reached: no explicit item id
  list, no single collection id. Then the list never makes the call fail (the call fails
  exactly when the same call without the list fails), and when the call returns, the
  compiled conditions constrain the collection id to the ids the lookup resolved, so
  identifiers that match no collection add nothing. With collection ids unique, a list
  none of whose identifiers is that of an available collection selects no row.
\<close>

theorem unmatched_collections_dropped:
  assumes "ids p = None" and "\<not> truthy_str (collection_id p)"
    and "collections p = Some cs" and "truthy_sl (Some cs)"
  shows "(\<forall>e. get_collection_items E C D p = Inl e \<longleftrightarrow>
               get_collection_items E C D (p\<lparr>collections := None\<rparr>) = Inl e)
       \<and> (\<forall>q. get_collection_items E C D p = Inr q \<longrightarrow>
             OnCollection (CollectionIdIn (lookup_collection_ids D (as_list cs)))
               \<in> set (q_where q)
             \<and> (distinct (map c_id (db_collections D))
                \<and> (\<forall>c \<in> set (db_collections D).
                      c_is_available c \<longrightarrow> c_identifier c \<notin> set (as_list cs))
                \<longrightarrow> matching_rows S D (q_where q) = []))"
proof (intro conjI allI impI)
  fix e
  show "get_collection_items E C D p = Inl e \<longleftrightarrow>
        get_collection_items E C D (p\<lparr>collections := None\<rparr>) = Inl e"
    using assms(1) other_filters_collections [OF assms(2,3,4), of E C D]
    by (simp add: get_collection_items_def split: sum.splits)
next
  fix q assume q: "get_collection_items E C D p = Inr q"
  then show in_where: "OnCollection (CollectionIdIn (lookup_collection_ids D (as_list cs)))
          \<in> set (q_where q)"
    using assms(1) other_filters_collections [OF assms(2,3,4), of E C D]
    by (auto simp: get_collection_items_def split: sum.splits)
  have avail: "OnCollection CollectionIsAvailable \<in> set (q_where q)"
    using q assms(1)
    by (auto simp: get_collection_items_def base_where_def split: sum.splits)
  assume h: "distinct (map c_id (db_collections D))
        \<and> (\<forall>c \<in> set (db_collections D).
              c_is_available c \<longrightarrow> c_identifier c \<notin> set (as_list cs))"
  show "matching_rows S D (q_where q) = []"
  proof (rule ccontr)
    assume "matching_rows S D (q_where q) \<noteq> []"
    then obtain r where r: "r \<in> set (matching_rows S D (q_where q))"
      by (cases "matching_rows S D (q_where q)") auto
    then have mem: "r_collection r \<in> set (db_collections D)"
      and all: "list_all (holds S r) (q_where q)"
      using matching_rows_collection by blast+
    from all avail have a: "c_is_available (r_collection r)"
      by (auto simp: list_all_iff)
    from all in_where have "c_id (r_collection r) \<in> set (lookup_collection_ids D (as_list cs))"
      by (auto simp: list_all_iff)
    with h mem have "c_identifier (r_collection r) \<in> set (as_list cs)"
      using lookup_collection_ids_unique by blast
    with h mem a show False by blast
  qed
qed

theorem unmatched_collections_dropped_witness:
  "get_collection_items sample_env sample_config sample_db
     (no_params\<lparr>collections := Some (PStr ''nope,missing-1'')\<rparr>)
   = Inr \<lparr>q_columns = item_columns [],
          q_where = [JoinCollectionItem, OnCollection CollectionIsAvailable, ItemIsAvailable,
                     OnCollection (add_roles_constraint []), OnCollection (CollectionIdIn [])],
          q_page = 1, q_per_page = 10, q_max_per_page = 1000\<rparr>
   \<and> matching_rows sample_sql sample_db
        [JoinCollectionItem, OnCollection CollectionIsAvailable, ItemIsAvailable,
         OnCollection (add_roles_constraint []), OnCollection (CollectionIdIn [])] = []"
  using unmatched_collections_dropped
    [where p = "no_params\<lparr>collections := Some (PStr ''nope,missing-1'')\<rparr>"
       and cs = "PStr ''nope,missing-1''" and E = sample_env and C = sample_config
       and D = sample_db and S = sample_sql]
  by (simp add: get_collection_items_def other_filters_def no_params_def truthy_str_def
      truthy_sl_def collections_filter_def query_filter_def datetime_filter_def
      spatial_filter_def base_where_def sample_config_def as_list_def lookup_collection_ids_def
      sample_db_def private_collection_def public_collection_def matching_rows_def)

text \<open>
  The claim as stated fails: with an explicit id list the collection list is ignored, the
  compiled conditions do not constrain the collection id, and a list that matches no
  collection returns the item asked for. And with a single collection id given as well,
  the call aborts.
\<close>

theorem collections_ignored_with_ids_counterexample:
  "get_collection_items sample_env sample_config sample_db
     (no_params\<lparr>ids := Some (PList [''LC8_A'']), collections := Some (PList [''nope''])\<rparr>)
   = Inr \<lparr>q_columns = item_columns [],
          q_where = [JoinCollectionItem, OnCollection CollectionIsAvailable, ItemIsAvailable,
                     OnCollection (add_roles_constraint []), ItemNameIn [''LC8_A'']],
          q_page = 1, q_per_page = 10, q_max_per_page = 1000\<rparr>
   \<and> matching_rows sample_sql sample_db
        [JoinCollectionItem, OnCollection CollectionIsAvailable, ItemIsAvailable,
         OnCollection (add_roles_constraint []), ItemNameIn [''LC8_A'']] = [sample_row]
   \<and> lookup_collection_ids sample_db [''nope''] = []
   \<and> get_collection_items sample_env sample_config sample_db
       (no_params\<lparr>collection_id := Some ''S2-1'', collections := Some (PList [''nope''])\<rparr>)
     = Inl AbortInvalidParameter"
  by (simp add: get_collection_items_def other_filters_def no_params_def base_where_def
      as_list_def sample_config_def matching_rows_def sample_db_def sample_row_def
      sample_item_def public_collection_def private_collection_def add_roles_constraint_def
      tile_of_def lookup_collection_ids_def truthy_str_def truthy_sl_def)

section \<open>Electro-optical band metadata\<close>

lemma eo_loop_total:
  assumes "\<forall>b \<in> set bs. b_eo_resolutions b \<noteq> Some []"
  shows "eo_loop E bs acc g w =
           (Inr \<lparr>eo_gsd = fold max (first_resolutions bs) g,
                 eo_bands = acc @ map (band_meta E)
                                    (filter (\<lambda>b. b_eo_resolutions b \<noteq> None) bs)\<rparr>,
            w @ map no_resolution_warning (filter (\<lambda>b. b_eo_resolutions b = None) bs))"
  using assms
proof (induction bs arbitrary: acc g w)
  case Nil
  then show ?case by (simp add: first_resolutions_def)
next
  case (Cons b bs)
  then have ih: "\<And>acc g w. eo_loop E bs acc g w =
           (Inr \<lparr>eo_gsd = fold max (first_resolutions bs) g,
                 eo_bands = acc @ map (band_meta E)
                                    (filter (\<lambda>b. b_eo_resolutions b \<noteq> None) bs)\<rparr>,
            w @ map no_resolution_warning (filter (\<lambda>b. b_eo_resolutions b = None) bs))"
    by simp
  show ?case
  proof (cases "b_eo_resolutions b")
    case None
    then show ?thesis by (simp add: ih first_resolutions_def)
  next
    case (Some rs)
    with Cons.prems obtain r0 rest where rs: "rs = r0 # rest" by (cases rs) auto
    have "(if r0 > g then r0 else g) = max r0 g" by (simp add: max_def)
    with Some rs show ?thesis by (simp add: ih first_resolutions_def)
  qed
qed

lemma eo_loop_raises:
  assumes "\<exists>b \<in> set bs. b_eo_resolutions b = Some []"
  shows "fst (eo_loop E bs acc g w) = Inl IndexError"
  using assms
proof (induction bs arbitrary: acc g w)
  case Nil
  then show ?case by simp
next
  case (Cons b bs)
  show ?case
  proof (cases "b_eo_resolutions b")
    case None
    with Cons show ?thesis by simp
  next
    case (Some rs)
    show ?thesis
    proof (cases rs)
      case Nil
      with Some show ?thesis by simp
    next
      case (Cons r0 rest)
      with Some Cons.prems Cons.IH show ?thesis by simp
    qed
  qed
qed

lemma eo_body_returns:
  assumes "\<forall>b \<in> set (collection_bands D cid). b_eo_resolutions b \<noteq> Some []"
  shows "get_collection_eo_body E D cid =
           (Inr \<lparr>eo_gsd = Max (set (0 # first_resolutions (collection_bands D cid))),
                 eo_bands = map (band_meta E)
                   (filter (\<lambda>b. b_eo_resolutions b \<noteq> None) (collection_bands D cid))\<rparr>,
            map no_resolution_warning
              (filter (\<lambda>b. b_eo_resolutions b = None) (collection_bands D cid)))"
  unfolding get_collection_eo_body_def
  using eo_loop_total [OF assms, of E "[]" 0 "[]"] by (simp add: fold_max_Max)

lemma eo_body_raises:
  assumes "\<exists>b \<in> set (collection_bands D cid). b_eo_resolutions b = Some []"
  shows "fst (get_collection_eo_body E D cid) = Inl IndexError"
  unfolding get_collection_eo_body_def using assms by (rule eo_loop_raises)

lemma eo_body_result:
  assumes "fst (get_collection_eo_body E D cid) = Inr r"
  shows "\<forall>b \<in> set (collection_bands D cid). b_eo_resolutions b \<noteq> Some []"
proof (rule ccontr)
  assume "\<not> (\<forall>b \<in> set (collection_bands D cid). b_eo_resolutions b \<noteq> Some [])"
  then have "\<exists>b \<in> set (collection_bands D cid). b_eo_resolutions b = Some []" by blast
  from eo_body_raises [OF this, of E] assms show False by simp
qed

text \<open>The cache: what a call returns, and that calls on an unchanged store keep it valid.\<close>

lemma cache_valid_lookup:
  "cache_valid E D c \<Longrightarrow> map_of c cid = Some r \<Longrightarrow> fst (get_collection_eo_body E D cid) = Inr r"
proof -
  assume v: "cache_valid E D c" and m: "map_of c cid = Some r"
  from m have "(cid, r) \<in> set c" by (rule map_of_SomeD)
  with v show ?thesis by (auto simp: cache_valid_def list_all_iff)
qed

lemma get_collection_eo_result:
  assumes "cache_valid E D (rt_eo_cache s)"
  shows "fst (get_collection_eo E D cid s) = fst (get_collection_eo_body E D cid)"
proof (cases "map_of (rt_eo_cache s) cid")
  case None
  then show ?thesis
    by (simp add: get_collection_eo_def split: prod.splits sum.splits)
next
  case (Some r)
  with assms have "fst (get_collection_eo_body E D cid) = Inr r" by (rule cache_valid_lookup)
  with Some show ?thesis by (simp add: get_collection_eo_def)
qed

lemma get_collection_eo_log:
  "rt_log (snd (get_collection_eo E D cid s)) =
     (case map_of (rt_eo_cache s) cid of
        None \<Rightarrow> rt_log s @ snd (get_collection_eo_body E D cid)
      | Some r \<Rightarrow> rt_log s)"
  by (simp add: get_collection_eo_def split: option.splits prod.splits sum.splits)

lemma cache_valid_empty: "cache_valid E D []"
  by (simp add: cache_valid_def)

lemma cache_valid_kept:
  assumes "cache_valid E D (rt_eo_cache s)"
  shows "cache_valid E D (rt_eo_cache (snd (get_collection_eo E D cid s)))"
proof (cases "map_of (rt_eo_cache s) cid")
  case None
  show ?thesis
  proof (cases "get_collection_eo_body E D cid")
    case (Pair res w)
    show ?thesis
    proof (cases res)
      case (Inl e)
      with None Pair assms show ?thesis by (simp add: get_collection_eo_def)
    next
      case (Inr r)
      have "set (take lru_maxsize ((cid, r) # rt_eo_cache s)) \<subseteq> set ((cid, r) # rt_eo_cache s)"
        by (rule set_take_subset)
      with None Pair Inr assms show ?thesis
        by (auto simp: get_collection_eo_def cache_valid_def list_all_iff)
    qed
  qed
next
  case (Some r)
  with assms have "fst (get_collection_eo_body E D cid) = Inr r" by (rule cache_valid_lookup)
  with Some assms show ?thesis
    by (auto simp: get_collection_eo_def cache_valid_def list_all_iff)
qed

text \<open>
  Claim C7, as amended. The store is unchanged since the results in the cache were
  computed (as on the first call of a process). Whenever \<^verbatim>\<open>get_collection_eo\<close> returns a
  result, and it returns one for every collection none of whose bands has an empty
  resolution list: \<^verbatim>\<open>eo:gsd\<close> is the maximum of 0.0 and the first resolution entries of the
  bands that have resolution entries, which is the maximum of the first resolution entries
  whenever one of them is not negative; \<^verbatim>\<open>eo:bands\<close> has one entry for each band that has
  resolution entries, in order; each band whose resolution data is \<^verbatim>\<open>None\<close> is skipped, and
  a warning for it is logged when the result is computed, while a call answered from the
  cache logs nothing; and the cache stays valid for the store.
\<close>

theorem eo_gsd_is_floored_maximum:
  assumes "cache_valid E D (rt_eo_cache s)"
  shows "(\<forall>r s'. get_collection_eo E D cid s = (Inr r, s') \<longrightarrow>
            eo_gsd r = Max (set (0 # first_resolutions (collection_bands D cid)))
            \<and> ((\<exists>x \<in> set (first_resolutions (collection_bands D cid)). 0 \<le> x) \<longrightarrow>
                 eo_gsd r = Max (set (first_resolutions (collection_bands D cid))))
            \<and> eo_bands r = map (band_meta E)
                 (filter (\<lambda>b. b_eo_resolutions b \<noteq> None) (collection_bands D cid))
            \<and> (map_of (rt_eo_cache s) cid = None \<longrightarrow>
                 rt_log s' = rt_log s @ map no_resolution_warning
                   (filter (\<lambda>b. b_eo_resolutions b = None) (collection_bands D cid)))
            \<and> (map_of (rt_eo_cache s) cid \<noteq> None \<longrightarrow> rt_log s' = rt_log s)
            \<and> cache_valid E D (rt_eo_cache s'))
       \<and> ((\<forall>b \<in> set (collection_bands D cid). b_eo_resolutions b \<noteq> Some []) \<longrightarrow>
            (\<exists>r s'. get_collection_eo E D cid s = (Inr r, s')))"
proof (intro conjI allI impI)
  let ?bs = "collection_bands D cid"
  let ?fr = "first_resolutions ?bs"
  fix r s' assume call: "get_collection_eo E D cid s = (Inr r, s')"
  with get_collection_eo_result [OF assms, of cid]
  have body: "fst (get_collection_eo_body E D cid) = Inr r" by simp
  from eo_body_returns [OF eo_body_result [OF body], of E] body
  have r: "r = \<lparr>eo_gsd = Max (set (0 # ?fr)),
                eo_bands = map (band_meta E) (filter (\<lambda>b. b_eo_resolutions b \<noteq> None) ?bs)\<rparr>"
    and w: "snd (get_collection_eo_body E D cid) =
              map no_resolution_warning (filter (\<lambda>b. b_eo_resolutions b = None) ?bs)"
    by simp_all
  from r show "eo_gsd r = Max (set (0 # ?fr))" by simp
  from r show "eo_bands r = map (band_meta E) (filter (\<lambda>b. b_eo_resolutions b \<noteq> None) ?bs)"
    by simp
  from get_collection_eo_log [of E D cid s] call w
  show "rt_log s' = rt_log s @ map no_resolution_warning
                   (filter (\<lambda>b. b_eo_resolutions b = None) ?bs)"
    if "map_of (rt_eo_cache s) cid = None"
    using that by simp
  from get_collection_eo_log [of E D cid s] call
  show "rt_log s' = rt_log s" if "map_of (rt_eo_cache s) cid \<noteq> None"
    using that by auto
  from cache_valid_kept [OF assms, of cid] call
  show "cache_valid E D (rt_eo_cache s')" by simp
  show "eo_gsd r = Max (set ?fr)" if "\<exists>x \<in> set ?fr. 0 \<le> x"
  proof -
    from that obtain x where x: "x \<in> set ?fr" "0 \<le> x" by blast
    then have ne: "set ?fr \<noteq> {}" by auto
    have "x \<le> Max (set ?fr)" using x by simp
    then have "0 \<le> Max (set ?fr)" using x by linarith
    then have "Max (set (0 # ?fr)) = Max (set ?fr)" using ne by (simp add: max_def)
    with r show ?thesis by simp
  qed
next
  assume "\<forall>b \<in> set (collection_bands D cid). b_eo_resolutions b \<noteq> Some []"
  from eo_body_returns [OF this, of E] get_collection_eo_result [OF assms, of cid]
  have "\<exists>r. fst (get_collection_eo E D cid s) = Inr r" by simp
  then show "\<exists>r s'. get_collection_eo E D cid s = (Inr r, s')"
    by (metis prod.collapse)
qed

text \<open>
  The scenario of the claim, on a first call: two bands with the resolutions [30.0] and
  [10.0] give \<^verbatim>\<open>eo:gsd = 30.0\<close> and two entries in \<^verbatim>\<open>eo:bands\<close>, and nothing is logged.
\<close>

theorem eo_gsd_is_floored_maximum_witness:
  "(case get_collection_eo sample_env sample_db 2 empty_runtime of
      (Inr r, s') \<Rightarrow> eo_gsd r = 30 \<and> length (eo_bands r) = 2 \<and> rt_log s' = []
    | (Inl e, s') \<Rightarrow> False)"
proof -
  have valid: "cache_valid sample_env sample_db (rt_eo_cache empty_runtime)"
    by (simp add: empty_runtime_def cache_valid_def)
  note claim = eo_gsd_is_floored_maximum [OF valid, of 2]
  have bands: "collection_bands sample_db 2 =
                 [sample_band ''B1'' (Some [30]), sample_band ''B2'' (Some [10])]"
    by (simp add: collection_bands_def sample_db_def sample_band_def)
  have res: "map b_eo_resolutions (collection_bands sample_db 2) = [Some [30], Some [10]]"
    by (simp add: bands sample_band_def)
  have first: "first_resolutions (collection_bands sample_db 2) = [30, 10]"
    by (simp add: bands first_resolutions_def sample_band_def)
  have "\<forall>b \<in> set (collection_bands sample_db 2). b_eo_resolutions b \<noteq> Some []"
    by (simp add: bands sample_band_def)
  with claim obtain r s'
    where call: "get_collection_eo sample_env sample_db 2 empty_runtime = (Inr r, s')"
    by blast
  with claim have gsd: "eo_gsd r = Max (set (0 # first_resolutions (collection_bands sample_db 2)))"
    and entries: "eo_bands r = map (band_meta sample_env)
                    (filter (\<lambda>b. b_eo_resolutions b \<noteq> None) (collection_bands sample_db 2))"
    and logged: "map_of (rt_eo_cache empty_runtime) 2 = None \<longrightarrow>
                   rt_log s' = rt_log empty_runtime @ map no_resolution_warning
                     (filter (\<lambda>b. b_eo_resolutions b = None) (collection_bands sample_db 2))"
    by blast+
  from gsd have "eo_gsd r = 30" by (simp add: first)
  moreover from entries have "length (eo_bands r) = 2" by (simp add: bands sample_band_def)
  moreover from logged have "rt_log s' = []"
    by (simp add: empty_runtime_def bands sample_band_def)
  ultimately show ?thesis by (simp add: call)
qed

text \<open>
  The claim as stated fails on a collection whose only band has the resolution [-5.0]:
  the maximum of the first resolution entries is -5.0 and \<^verbatim>\<open>eo:gsd\<close> is 0.0. And a band
  whose resolution list is empty is not skipped: the call raises.
\<close>

theorem eo_gsd_negative_resolution_counterexample:
  "(case get_collection_eo sample_env negative_band_db 2 empty_runtime of
      (Inr r, s') \<Rightarrow> eo_gsd r = 0 \<and> length (eo_bands r) = 1
    | (Inl e, s') \<Rightarrow> False)
   \<and> Max (set (first_resolutions (collection_bands negative_band_db 2))) = - 5
   \<and> fst (get_collection_eo sample_env
            (sample_db\<lparr>db_bands := [sample_band ''B1'' (Some [30]), sample_band ''B2'' (Some [])]\<rparr>)
            2 empty_runtime) = Inl IndexError"
  by (simp add: get_collection_eo_def get_collection_eo_body_def collection_bands_def
      negative_band_db_def sample_db_def sample_band_def first_resolutions_def
      empty_runtime_def lru_maxsize_def)

text \<open>
  What holds of the floor at 0.0: with a cache valid for the store, a collection with no
  bands, or whose bands all have \<^verbatim>\<open>None\<close> as resolution data, gets \<^verbatim>\<open>eo:gsd = 0.0\<close> and no
  band entry; a result never has \<^verbatim>\<open>eo:gsd\<close> below 0.0; and a band with an empty resolution
  list makes the call raise \<^verbatim>\<open>IndexError\<close>.
\<close>

lemma eo_without_resolutions:
  assumes "cache_valid E D (rt_eo_cache s)"
    and "\<forall>b \<in> set (collection_bands D cid). b_eo_resolutions b = None"
  shows "fst (get_collection_eo E D cid s) = Inr \<lparr>eo_gsd = 0, eo_bands = []\<rparr>"
proof -
  from assms(2) have ne: "\<forall>b \<in> set (collection_bands D cid). b_eo_resolutions b \<noteq> Some []"
    by simp
  have f1: "first_resolutions (collection_bands D cid) = []"
    using assms(2) by (induction "collection_bands D cid") (auto simp: first_resolutions_def)
  have f2: "filter (\<lambda>b. b_eo_resolutions b \<noteq> None) (collection_bands D cid) = []"
    using assms(2) by (auto simp: filter_empty_conv)
  from eo_body_returns [OF ne, of E] get_collection_eo_result [OF assms(1), of cid] f1 f2
  show ?thesis by simp
qed

lemma eo_gsd_not_negative:
  assumes "cache_valid E D (rt_eo_cache s)" and "fst (get_collection_eo E D cid s) = Inr r"
  shows "0 \<le> eo_gsd r"
proof -
  from assms get_collection_eo_result [OF assms(1), of cid]
  have body: "fst (get_collection_eo_body E D cid) = Inr r" by simp
  from eo_body_returns [OF eo_body_result [OF body], of E] body
  have "eo_gsd r = Max (set (0 # first_resolutions (collection_bands D cid)))" by auto
  then show ?thesis by simp
qed

lemma eo_raises_on_empty_resolutions:
  assumes "cache_valid E D (rt_eo_cache s)"
    and "\<exists>b \<in> set (collection_bands D cid). b_eo_resolutions b = Some []"
  shows "fst (get_collection_eo E D cid s) = Inl IndexError"
  using eo_body_raises [OF assms(2), of E] get_collection_eo_result [OF assms(1), of cid]
  by simp

text \<open>
  Claim C10. The claim: for a collection with no bands, or whose bands all lack resolution
  data, \<^verbatim>\<open>get_collection_eo\<close> returns \<^verbatim>\<open>eo:gsd = 0.0\<close> and an empty \<^verbatim>\<open>eo:bands\<close> list. The
  code skips a band, with the warning that no resolution is configured, only when its
  resolution data is \<^verbatim>\<open>None\<close>. Run on a collection whose only band has an empty
  resolution list, on a first call: the call raises \<^verbatim>\<open>IndexError\<close>, nothing is returned or
  logged and nothing enters the cache.
\<close>

theorem empty_resolution_list_raises:
  "map b_eo_resolutions (collection_bands empty_resolution_db 2) = [Some []]
   \<and> get_collection_eo sample_env empty_resolution_db 2 empty_runtime
       = (Inl IndexError, empty_runtime)"
  by (simp add: get_collection_eo_def get_collection_eo_body_def collection_bands_def
      empty_resolution_db_def sample_db_def sample_band_def empty_runtime_def)

section \<open>Field projection\<close>


text \<open>
  Splitting a field that starts with \<^verbatim>\<open>-\<close> and dropping the \<^verbatim>\<open>-\<close> from the first part, as
  the code does, gives the parts of the text after the \<^verbatim>\<open>-\<close>.
\<close>

lemma split_on_minus:
  "split_on CHR ''.'' (CHR ''-'' # rest) =
     (case split_on CHR ''.'' rest of [] \<Rightarrow> [''-''] | w # ws \<Rightarrow> (CHR ''-'' # w) # ws)"
  by simp








section \<open>Item documents\<close>

lemma map_of_replace_other:
  "k \<noteq> k' \<Longrightarrow> map_of (map (\<lambda>kv. if fst kv = k' then (k', v) else kv) d) k = map_of d k"
  by (induction d) auto

lemma map_of_replace_same:
  "k' \<in> fst ` set d \<Longrightarrow> map_of (map (\<lambda>kv. if fst kv = k' then (k', v) else kv) d) k' = Some v"
  by (induction d) auto

lemma dict_get_set:
  "dict_get k (dict_set k' v d) = (if k = k' then Some v else dict_get k d)"
proof (cases "k' \<in> set (map fst d)")
  case True
  then show ?thesis
    by (simp add: dict_get_def dict_set_def map_of_replace_other map_of_replace_same)
next
  case False
  then have "map_of d k' = None" by (simp add: map_of_eq_None_iff)
  with False show ?thesis
    by (auto simp: dict_get_def dict_set_def map_add_def split: option.splits)
qed

lemma dict_get_update_other:
  "k \<notin> fst ` set e \<Longrightarrow> dict_get k (dict_update d e) = dict_get k d"
  unfolding dict_update_def
  by (induction e arbitrary: d) (auto simp: dict_get_set)

lemma dict_get_update:
  "distinct (map fst e) \<Longrightarrow>
   dict_get k (dict_update d e) = (case map_of e k of Some v \<Rightarrow> Some v | None \<Rightarrow> dict_get k d)"
  unfolding dict_update_def
proof (induction e arbitrary: d)
  case Nil
  then show ?case by simp
next
  case (Cons a e)
  then have "map_of e (fst a) = None" by (simp add: map_of_eq_None_iff)
  with Cons show ?case by (cases a) (auto simp: dict_get_set split: option.splits)
qed

lemma dict_get_pop:
  "dict_get k (dict_pop k' d) = (if k = k' then None else dict_get k d)"
  unfolding dict_get_def dict_pop_def by (induction d) auto

lemma dict_get_fold_pop:
  "dict_get k (fold dict_pop excl d) = (if k \<in> set excl then None else dict_get k d)"
  by (induction excl arbitrary: d) (auto simp: dict_get_pop)

lemma dict_get_append:
  "dict_get k (d @ e) = (case dict_get k d of Some v \<Rightarrow> Some v | None \<Rightarrow> dict_get k e)"
  by (simp add: dict_get_def map_add_def split: option.splits)

lemma processors_keys:
  "''storage:platform'' \<notin> fst ` set (get_item_processors D iid)"
  by (auto simp: get_item_processors_def split: prod.splits option.splits)

lemma properties_storage_platform:
  assumes "row_item_meta i = Some m" and "distinct (map fst m)"
  shows "dict_get ''storage:platform'' (item_properties E i (get_item_processors D iid))
           = map_of m ''storage:platform''"
  using assms processors_keys [of D iid]
  by (auto simp: item_properties_def Let_def dict_get_set dict_get_update dict_get_update_other
      dict_get_def [of _ "[_,_,_,_,_]"] split: option.splits)

lemma attach_bands_href:
  "dict_get ''href'' (attach_bands bands key v) = dict_get ''href'' v"
  unfolding attach_bands_def by (induction bands arbitrary: v) (auto simp: dict_get_set)

lemma rewrite_asset_ok:
  assumes "dict_get ''href'' (snd kv) = Some (JStr h)"
  shows "\<exists>v'. rewrite_asset E base kw is_eo bands kv = Inr (fst kv, v')
              \<and> dict_get ''href'' v' = Some (JStr (urljoin E base (h @ kw)))"
  using assms by (simp add: rewrite_asset_def Let_def attach_bands_href dict_get_set)

lemma for_each_keyed:
  assumes "\<forall>x \<in> set xs. \<exists>v'. f x = Inr (fst x, v') \<and> P (snd x) v'"
  shows "\<exists>ys. for_each f xs = Inr ys
           \<and> (\<forall>k v. map_of xs k = Some v \<longrightarrow> (\<exists>v'. map_of ys k = Some v' \<and> P v v'))"
  using assms
proof (induction xs)
  case Nil
  then show ?case by simp
next
  case (Cons x xs)
  then obtain ys where ys: "for_each f xs = Inr ys"
      "\<forall>k v. map_of xs k = Some v \<longrightarrow> (\<exists>v'. map_of ys k = Some v' \<and> P v v')"
    by auto
  from Cons.prems obtain v' where v': "f x = Inr (fst x, v')" "P (snd x) v'" by auto
  show ?case
    using ys v' by (cases x) auto
qed


lemma for_each_length: "for_each f xs = Inr ys \<Longrightarrow> length ys = length xs"
  by (induction xs arbitrary: ys) (auto split: sum.splits)

lemma feature_with_bands_value:
  assumes "row_assets i = Some a"
    and "for_each (rewrite_asset E (resolve_item_file_root C R i) kw (row_category i = ''eo'') bands)
           (case a of None \<Rightarrow> [] | Some xs \<Rightarrow> xs) = Inr ys"
  shows "feature_with_bands E C R D kw excl i geom bands =
             Inr (fold dict_pop excl
                    (feature_base E C R i kw geom
                       (item_extensions C i (get_item_processors D (row_id i))
                          (item_properties E i (get_item_processors D (row_id i))))
                     @ (if ys \<noteq> [] then [(''assets'', JObj (map (\<lambda>kv. (fst kv, JObj (snd kv))) ys))]
                        else [])
                     @ [(''properties'',
                         JObj (item_properties E i (get_item_processors D (row_id i))))]))"
proof (cases a)
  case None
  with assms(2) have "ys = []" by simp
  with assms(1) None show ?thesis
    unfolding feature_with_bands_def Let_def by simp
next
  case (Some xs)
  with assms(2) have len: "length ys = length xs" by (auto dest: for_each_length)
  show ?thesis
  proof (cases "xs = []")
    case True
    with len have "ys = []" by simp
    with assms(1) Some True show ?thesis
      unfolding feature_with_bands_def Let_def by simp
  next
    case False
    with len have "ys \<noteq> []" by auto
    with assms Some False show ?thesis
      unfolding feature_with_bands_def Let_def by simp
  qed
qed

text \<open>
  The band lookup of a row: the bands of an \<^verbatim>\<open>eo\<close> item come from \<^verbatim>\<open>get_collection_eo\<close>,
  with the state it leaves; any other item has no bands and leaves the state as it is.
\<close>

lemma make_feature_bands:
  assumes "(case row_footprint i of Some g \<Rightarrow> Some g | None \<Rightarrow> row_bbox i) = Some geom"
    and "row_category i = ''eo'' \<longrightarrow>
           (\<exists>r. fst (get_collection_eo E D (row_collection_id i) s) = Inr r)"
  shows "\<exists>bands s'. make_feature E C R D kw excl i s =
                      (feature_with_bands E C R D kw excl i geom bands, s')"
proof (cases "row_category i = ''eo''")
  case True
  with assms(2) obtain r
    where "fst (get_collection_eo E D (row_collection_id i) s) = Inr r" by blast
  then obtain s1 where "get_collection_eo E D (row_collection_id i) s = (Inr r, s1)"
    by (cases "get_collection_eo E D (row_collection_id i) s") simp
  with True assms(1) have "make_feature E C R D kw excl i s =
      (feature_with_bands E C R D kw excl i geom (eo_bands r), s1)"
    by (simp add: make_feature_def)
  then show ?thesis by blast
next
  case False
  with assms(1) have "make_feature E C R D kw excl i s =
      (feature_with_bands E C R D kw excl i geom [], s)"
    by (simp add: make_feature_def)
  then show ?thesis by blast
qed

lemma feature_base_keys:
  "dict_get ''assets'' (feature_base E C R i kw geom exts) = None"
  "dict_get ''stac_extensions'' (feature_base E C R i kw geom exts) = Some (JList (map JStr exts))"
  by (simp_all add: dict_get_def feature_base_def)

lemma dict_get_Nil: "dict_get k [] = None"
  by (simp add: dict_get_def)

lemma dict_get_Cons: "dict_get k ((k', v) # d) = (if k = k' then Some v else dict_get k d)"
  by (simp add: dict_get_def)

lemma map_of_map_snd:
  "map_of (map (\<lambda>kv. (fst kv, g (snd kv))) ys) k = map_option g (map_of ys k)"
  by (induction ys) auto

text \<open>
  Claim C6, as amended. For an item row whose metadata (a dictionary) has a key starting
  with \<^verbatim>\<open>storage:\<close>, the asset base URL resolves to the empty string. When the feature is
  built (the row has a geometry and the assets column, every asset has a string \<^verbatim>\<open>href\<close>,
  and the band lookup of an \<^verbatim>\<open>eo\<close> item raises nothing), whatever the band cache holds,
  every asset \<^verbatim>\<open>href\<close> of the
  feature is the stored \<^verbatim>\<open>href\<close> followed by \<^verbatim>\<open>assets_kwargs\<close>, with no base URL in front of it
  (so it is the stored \<^verbatim>\<open>href\<close> itself when \<^verbatim>\<open>assets_kwargs\<close> is empty), unless \<^verbatim>\<open>assets\<close>
  is excluded; and the extension list contains the storage extension when the value of
  \<^verbatim>\<open>storage:platform\<close> is truthy, unless \<^verbatim>\<open>stac_extensions\<close> is excluded.
\<close>

theorem storage_items_keep_their_hrefs:
  assumes meta: "row_item_meta i = Some m" and dist: "distinct (map fst m)"
    and storage: "list_ex (\<lambda>k. startswith k ''storage:'') (map fst m)"
    and geom: "row_footprint i \<noteq> None \<or> row_bbox i \<noteq> None"
    and assets: "row_assets i = Some a"
    and hrefs: "\<forall>kv \<in> set (case a of None \<Rightarrow> [] | Some xs \<Rightarrow> xs).
                  \<exists>h. dict_get ''href'' (snd kv) = Some (JStr h)"
    and eo: "row_category i = ''eo'' \<longrightarrow>
               (\<exists>r. fst (get_collection_eo E D (row_collection_id i) s) = Inr r)"
  shows "resolve_item_file_root C R i = []
       \<and> (\<exists>f s'. make_geojson E C R D [i] kw excl s = (Inr [f], s')
            \<and> (''assets'' \<notin> set (case excl of None \<Rightarrow> [] | Some xs \<Rightarrow> xs) \<longrightarrow>
                 (\<forall>k v h. map_of (case a of None \<Rightarrow> [] | Some xs \<Rightarrow> xs) k = Some v
                           \<and> dict_get ''href'' v = Some (JStr h) \<longrightarrow>
                           feature_asset_href f k = Some (JStr (h @ kw))))
            \<and> ((\<exists>v. map_of m ''storage:platform'' = Some v \<and> truthy v)
                \<and> ''stac_extensions'' \<notin> set (case excl of None \<Rightarrow> [] | Some xs \<Rightarrow> xs) \<longrightarrow>
                 (\<forall>u \<in> set (get_stac_extensions C [''storage'']).
                    JStr u \<in> set (feature_extensions f))))"
proof -
  let ?al = "case a of None \<Rightarrow> [] | Some xs \<Rightarrow> xs"
  let ?excl = "case excl of None \<Rightarrow> [] | Some xs \<Rightarrow> xs"
  let ?procs = "get_item_processors D (row_id i)"
  let ?props = "item_properties E i ?procs"
  let ?P = "\<lambda>v v'. \<forall>h. dict_get ''href'' v = Some (JStr h) \<longrightarrow>
                      dict_get ''href'' v' = Some (JStr (h @ kw))"
  have base: "resolve_item_file_root C R i = []"
    using meta storage by (simp add: resolve_item_file_root_def)
  from geom have "\<exists>g. (case row_footprint i of Some g \<Rightarrow> Some g | None \<Rightarrow> row_bbox i) = Some g"
    by (cases "row_footprint i") auto
  then obtain g
    where g: "(case row_footprint i of Some g \<Rightarrow> Some g | None \<Rightarrow> row_bbox i) = Some g"
    by blast
  from make_feature_bands [OF g eo] obtain bands s'
    where bands: "make_feature E C R D kw ?excl i s =
                    (feature_with_bands E C R D kw ?excl i g bands, s')"
    by blast
  have "\<forall>x \<in> set ?al. \<exists>v'.
          rewrite_asset E (resolve_item_file_root C R i) kw (row_category i = ''eo'') bands x
            = Inr (fst x, v') \<and> ?P (snd x) v'"
  proof
    fix x assume "x \<in> set ?al"
    with hrefs obtain h where h: "dict_get ''href'' (snd x) = Some (JStr h)" by blast
    from rewrite_asset_ok [OF this, of E "[]" kw "row_category i = ''eo''" bands]
    show "\<exists>v'. rewrite_asset E (resolve_item_file_root C R i) kw (row_category i = ''eo'') bands x
            = Inr (fst x, v') \<and> ?P (snd x) v'"
      using h by (auto simp: base urljoin_def)
  qed
  from for_each_keyed [OF this] obtain ys
    where ys: "for_each (rewrite_asset E (resolve_item_file_root C R i) kw
                          (row_category i = ''eo'') bands) ?al = Inr ys"
      and keyed: "\<forall>k v. map_of ?al k = Some v \<longrightarrow> (\<exists>v'. map_of ys k = Some v' \<and> ?P v v')"
    by blast
  define f where "f = fold dict_pop ?excl
                    (feature_base E C R i kw g (item_extensions C i ?procs ?props)
                     @ (if ys \<noteq> [] then [(''assets'', JObj (map (\<lambda>kv. (fst kv, JObj (snd kv))) ys))]
                        else [])
                     @ [(''properties'', JObj ?props)])"
  have mf: "make_feature E C R D kw ?excl i s = (Inr f, s')"
    using feature_with_bands_value [OF assets ys, of D ?excl g] bands by (simp add: f_def)
  have mg: "make_geojson E C R D [i] kw excl s = (Inr [f], s')"
    by (simp add: make_geojson_def mf)
  have A: "feature_asset_href f k = Some (JStr (h @ kw))"
    if ne: "''assets'' \<notin> set ?excl" and kv: "map_of ?al k = Some v"
      and h: "dict_get ''href'' v = Some (JStr h)" for k v h
  proof -
    from keyed kv h obtain v' where v': "map_of ys k = Some v'"
        "dict_get ''href'' v' = Some (JStr (h @ kw))"
      by blast
    then have "ys \<noteq> []" by auto
    then have "dict_get ''assets'' f = Some (JObj (map (\<lambda>kv. (fst kv, JObj (snd kv))) ys))"
      using ne
      by (simp add: f_def dict_get_fold_pop dict_get_append feature_base_keys dict_get_Cons)
    with v' show ?thesis
      by (simp add: feature_asset_href_def map_of_map_snd)
  qed
  have B: "JStr u \<in> set (feature_extensions f)"
    if sp: "\<exists>v. map_of m ''storage:platform'' = Some v \<and> truthy v"
      and ne: "''stac_extensions'' \<notin> set ?excl"
      and u: "u \<in> set (get_stac_extensions C [''storage''])" for u
  proof -
    have "dict_get ''stac_extensions'' f = Some (JList (map JStr (item_extensions C i ?procs ?props)))"
      using ne by (simp add: f_def dict_get_fold_pop dict_get_append feature_base_keys)
    moreover have "u \<in> set (item_extensions C i ?procs ?props)"
      using sp u properties_storage_platform [OF meta dist, of E D "row_id i"]
      by (auto simp: item_extensions_def)
    ultimately show ?thesis by (simp add: feature_extensions_def)
  qed
  from base mg A B show ?thesis by blast
qed

lemmas sample_defs =
  make_geojson_def make_feature_def sample_item_row_def to_item_row_def item_columns_def
  sample_row_def sample_item_def public_collection_def sample_env_def sample_config_def
  sample_request_def sample_db_def sample_band_def get_collection_eo_def collection_bands_def
  get_collection_eo_body_def feature_with_bands_def empty_runtime_def lru_maxsize_def
  band_meta_def dict_update_def dict_set_def get_item_processors_def resolve_item_file_root_def
  startswith_def rewrite_asset_def attach_bands_def dict_get_def urljoin_def item_properties_def
  item_extensions_def feature_base_def dict_pop_def feature_asset_href_def
  feature_extensions_def jstr_opt_def jfloat_opt_def Let_def empty_platform_row_def

theorem storage_items_keep_their_hrefs_witness:
  "(case make_geojson sample_env sample_config sample_request sample_db [sample_item_row]
           [] None empty_runtime of
      (Inr [f], s') \<Rightarrow> feature_asset_href f ''B1'' = Some (JStr ''s3://bucket/B1.tif'')
                 \<and> JStr ''storage-schema'' \<in> set (feature_extensions f)
    | _ \<Rightarrow> False)"
  using storage_items_keep_their_hrefs
    [where i = sample_item_row and m = "[(''storage:platform'', JStr ''AWS'')]"
       and a = "Some [(''B1'', [(''href'', JStr ''s3://bucket/B1.tif'')])]"
       and E = sample_env and D = sample_db and C = sample_config and R = sample_request
       and kw = "[]" and excl = None and s = empty_runtime]
  by (simp add: sample_defs)

text \<open>
  The claim as stated fails in two ways. With the query string \<^verbatim>\<open>?access_token=abc\<close> as
  \<^verbatim>\<open>assets_kwargs\<close>, the \<^verbatim>\<open>href\<close> of the asset of a \<^verbatim>\<open>storage:platform\<close> item is the stored
  \<^verbatim>\<open>href\<close> with the query string appended. And an item whose \<^verbatim>\<open>storage:platform\<close> is the
  empty string gets no storage extension.
\<close>

theorem storage_href_suffix_counterexample:
  "(case make_geojson sample_env sample_config sample_request sample_db [sample_item_row]
           ''?access_token=abc'' None empty_runtime of
      (Inr [f], s') \<Rightarrow> feature_asset_href f ''B1''
                   = Some (JStr ''s3://bucket/B1.tif?access_token=abc'')
    | _ \<Rightarrow> False)
   \<and> row_item_meta sample_item_row = Some [(''storage:platform'', JStr ''AWS'')]
   \<and> row_assets sample_item_row
       = Some (Some [(''B1'', [(''href'', JStr ''s3://bucket/B1.tif'')])])
   \<and> (case make_geojson sample_env sample_config sample_request sample_db
              [empty_platform_row] [] None empty_runtime of
         (Inr [f], s') \<Rightarrow> feature_extensions f = [JStr ''eo-schema'']
       | _ \<Rightarrow> False)
   \<and> row_item_meta empty_platform_row = Some [(''storage:platform'', JStr [])]
   \<and> get_stac_extensions sample_config [''storage''] = [''storage-schema'']"
  by (simp add: sample_defs)

end
